theory Spec2Isabelle
  imports Main "HOL-Library.AList"
begin

section \<open>JavaScript values and documents\<close>

text \<open>
  The values that \<^verbatim>\<open>server.js\<close> moves between request bodies, the document store
  and response bodies. A document (and every other plain object) is an association list:
  the keys of a JavaScript object are distinct and keep their insertion order.
  \<open>JDate\<close> holds milliseconds since the epoch, \<open>JOid\<close> the 24 lower-case hex digits
  of an ObjectId, \<open>JJwt\<close> the claims and signing key of a token made by
  \<^verbatim>\<open>jwt.sign\<close> (the compact string itself is not computed).
\<close>

datatype jsval =
    JUndefined
  | JNull
  | JBool bool
  | JNum int
  | JStr string
  | JDate nat
  | JOid string
  | JJwt "(string \<times> jsval) list" string
  | JArr "jsval list"
  | JObj "(string \<times> jsval) list"

type_synonym doc = "(string \<times> jsval) list"

datatype js_error =
    TypeError string
  | ReferenceError string
  | BSONError string
  | MulterError string string
  | MongoError string
  | Error string

text \<open>\<^verbatim>\<open>err.message\<close>; a \<open>MulterError\<close> carries its code first, then its message.\<close>

fun message :: "js_error \<Rightarrow> string" where
  "message (TypeError m) = m"
| "message (ReferenceError m) = m"
| "message (BSONError m) = m"
| "message (MulterError code m) = m"
| "message (MongoError m) = m"
| "message (Error m) = m"

text \<open>Reading a property of an object: \<^verbatim>\<open>undefined\<close> when the key is absent.\<close>

definition lookup :: "doc \<Rightarrow> string \<Rightarrow> jsval" where
  "lookup d k = (case map_of d k of None \<Rightarrow> JUndefined | Some v \<Rightarrow> v)"

text \<open>
  \<^verbatim>\<open>v.k\<close> for one of the keys the server reads (\<^verbatim>\<open>message\<close>, \<^verbatim>\<open>email\<close>,
  \<^verbatim>\<open>password\<close>): a TypeError on \<^verbatim>\<open>null\<close> and \<^verbatim>\<open>undefined\<close>, the stored value
  on a plain object, \<^verbatim>\<open>undefined\<close> on every other value (none of them has such a
  property).
\<close>

fun get_member :: "jsval \<Rightarrow> string \<Rightarrow> js_error + jsval" where
  "get_member JUndefined k =
     Inl (TypeError (''Cannot read properties of undefined (reading '' @ [CHR 0x27] @ k @ [CHR 0x27] @ '')''))"
| "get_member JNull k =
     Inl (TypeError (''Cannot read properties of null (reading '' @ [CHR 0x27] @ k @ [CHR 0x27] @ '')''))"
| "get_member (JObj d) k = Inr (lookup d k)"
| "get_member v k = Inr JUndefined"

text \<open>Truthiness, as \<^verbatim>\<open>if (x)\<close> and \<^verbatim>\<open>!x\<close> test it.\<close>

fun truthy :: "jsval \<Rightarrow> bool" where
  "truthy JUndefined = False"
| "truthy JNull = False"
| "truthy (JBool b) = b"
| "truthy (JNum n) = (n \<noteq> 0)"
| "truthy (JStr s) = (s \<noteq> [])"
| "truthy v = True"

text \<open>
  \<^verbatim>\<open>a === b\<close> for two values that come from different places (a stored document and
  a parsed request body): primitives compare by value, objects by identity, so two
  objects are never equal here.
\<close>

fun strict_eq :: "jsval \<Rightarrow> jsval \<Rightarrow> bool" where
  "strict_eq JUndefined JUndefined = True"
| "strict_eq JNull JNull = True"
| "strict_eq (JBool a) (JBool b) = (a = b)"
| "strict_eq (JNum a) (JNum b) = (a = b)"
| "strict_eq (JStr a) (JStr b) = (a = b)"
| "strict_eq a b = False"

section \<open>ObjectId\<close>

text \<open>
  The driver's \<^verbatim>\<open>ObjectId\<close>, for the strings a route parameter can be: a string is
  accepted when it is 24 hexadecimal digits; \<^verbatim>\<open>ObjectId.isValid\<close> answers whether the
  constructor accepts, and the constructor throws otherwise. Upper and lower case digits
  denote the same identifier.
\<close>

definition is_hex :: "char \<Rightarrow> bool" where
  "is_hex c = (c \<in> set ''0123456789abcdefABCDEF'')"

definition lower_hex :: "char \<Rightarrow> char" where
  "lower_hex c =
     (if c = CHR ''A'' then CHR ''a'' else if c = CHR ''B'' then CHR ''b''
      else if c = CHR ''C'' then CHR ''c'' else if c = CHR ''D'' then CHR ''d''
      else if c = CHR ''E'' then CHR ''e'' else if c = CHR ''F'' then CHR ''f'' else c)"

definition ObjectId_isValid :: "string \<Rightarrow> bool" where
  "ObjectId_isValid s = (length s = 24 \<and> list_all is_hex s)"

definition new_ObjectId :: "string \<Rightarrow> js_error + jsval" where
  "new_ObjectId s =
     (if ObjectId_isValid s then Inr (JOid (map lower_hex s))
      else Inl (BSONError ''input must be a 24 character hex string, 12 byte Uint8Array, or an integer''))"

text \<open>The identifiers the driver generates for inserted documents, from a counter.\<close>

definition hex_digit :: "nat \<Rightarrow> char" where
  "hex_digit n = ''0123456789abcdef'' ! (n mod 16)"

fun hex_of :: "nat \<Rightarrow> nat \<Rightarrow> string" where
  "hex_of 0 n = []"
| "hex_of (Suc k) n = hex_of k (n div 16) @ [hex_digit n]"

definition fresh_oid :: "nat \<Rightarrow> jsval" where
  "fresh_oid n = JOid (hex_of 24 n)"

section \<open>The document store and the media host\<close>

datatype collection_name = Services | Banners | Faqs | Galleries | Users

datatype db_call =
    FindOne collection_name string jsval
  | FindAll collection_name
  | InsertOne collection_name doc
  | DeleteOne collection_name jsval
  | CountDocuments collection_name

text \<open>
  Everything outside the process that the handlers read or change. \<open>db_ready\<close> says
  whether \<^verbatim>\<open>connectToMongo\<close> has assigned the module variable \<^verbatim>\<open>db\<close>. \<open>media\<close> are
  the public ids of the files the media host holds. \<open>faults\<close> are the answers the store
  will give to the coming calls, in order: \<open>Some m\<close> makes the call throw an error with
  message \<open>m\<close> (a lost connection, a rejected write), \<open>None\<close> and an exhausted list let
  it go through. \<open>db_log\<close> lists the calls sent to the store so far.
\<close>

record world =
  db_ready :: bool
  services :: "doc list"
  banners :: "doc list"
  faqs :: "doc list"
  galleries :: "doc list"
  users :: "doc list"
  media :: "string list"
  next_oid :: nat
  faults :: "string option list"
  db_log :: "db_call list"

fun get_coll :: "collection_name \<Rightarrow> world \<Rightarrow> doc list" where
  "get_coll Services w = services w"
| "get_coll Banners w = banners w"
| "get_coll Faqs w = faqs w"
| "get_coll Galleries w = galleries w"
| "get_coll Users w = users w"

fun set_coll :: "collection_name \<Rightarrow> doc list \<Rightarrow> world \<Rightarrow> world" where
  "set_coll Services ds w = w\<lparr>services := ds\<rparr>"
| "set_coll Banners ds w = w\<lparr>banners := ds\<rparr>"
| "set_coll Faqs ds w = w\<lparr>faqs := ds\<rparr>"
| "set_coll Galleries ds w = w\<lparr>galleries := ds\<rparr>"
| "set_coll Users ds w = w\<lparr>users := ds\<rparr>"

text \<open>\<^verbatim>\<open>db.collection(name)\<close>: a TypeError while \<^verbatim>\<open>db\<close> is still undefined.\<close>

datatype coll_handle = Coll collection_name

definition collection :: "world \<Rightarrow> collection_name \<Rightarrow> js_error + coll_handle" where
  "collection w c =
     (if db_ready w then Inr (Coll c)
      else Inl (TypeError ''Cannot read properties of undefined (reading 'collection')''))"

text \<open>Sending one call to the store: it is logged and takes the next answer.\<close>

definition store_call :: "db_call \<Rightarrow> world \<Rightarrow> string option \<times> world" where
  "store_call c w =
     ((case faults w of [] \<Rightarrow> None | f # fs \<Rightarrow> f),
      w\<lparr>faults := tl (faults w), db_log := db_log w @ [c]\<rparr>)"

text \<open>
  The store's equality filter \<^verbatim>\<open>{k: q}\<close> on a top-level field: the field equals the
  value, or is an array holding it; \<^verbatim>\<open>null\<close> (as which the driver sends
  \<^verbatim>\<open>undefined\<close>) also selects the documents without the field. Operator documents
  are not interpreted.
\<close>

definition eq_match :: "doc \<Rightarrow> string \<Rightarrow> jsval \<Rightarrow> bool" where
  "eq_match d k q =
     (let q' = (if q = JUndefined then JNull else q) in
      case map_of d k of
        None \<Rightarrow> q' = JNull
      | Some v \<Rightarrow> v = q' \<or> (case v of JArr xs \<Rightarrow> q' \<in> set xs | _ \<Rightarrow> False))"

definition findOne :: "coll_handle \<Rightarrow> string \<Rightarrow> jsval \<Rightarrow> world \<Rightarrow> (js_error + jsval) \<times> world" where
  "findOne h k q w =
     (case h of Coll c \<Rightarrow>
        (case store_call (FindOne c k q) w of
           (Some m, w') \<Rightarrow> (Inl (MongoError m), w')
         | (None, w') \<Rightarrow>
             (Inr (case find (\<lambda>d. eq_match d k q) (get_coll c w') of
                     None \<Rightarrow> JNull
                   | Some d \<Rightarrow> JObj d), w')))"

definition find_toArray :: "coll_handle \<Rightarrow> world \<Rightarrow> (js_error + jsval) \<times> world" where
  "find_toArray h w =
     (case h of Coll c \<Rightarrow>
        (case store_call (FindAll c) w of
           (Some m, w') \<Rightarrow> (Inl (MongoError m), w')
         | (None, w') \<Rightarrow> (Inr (JArr (map JObj (get_coll c w'))), w')))"

definition countDocuments :: "coll_handle \<Rightarrow> world \<Rightarrow> (js_error + jsval) \<times> world" where
  "countDocuments h w =
     (case h of Coll c \<Rightarrow>
        (case store_call (CountDocuments c) w of
           (Some m, w') \<Rightarrow> (Inl (MongoError m), w')
         | (None, w') \<Rightarrow> (Inr (JNum (int (length (get_coll c w')))), w')))"

text \<open>
  \<^verbatim>\<open>insertOne\<close>: the driver gives a document without \<^verbatim>\<open>_id\<close> a fresh ObjectId
  before sending it; the store keeps \<^verbatim>\<open>_id\<close> as the first field and answers with it.
\<close>

definition insertOne :: "coll_handle \<Rightarrow> doc \<Rightarrow> world \<Rightarrow> (js_error + jsval) \<times> world" where
  "insertOne h d w =
     (case h of Coll c \<Rightarrow>
        (let given = lookup d ''_id'';
             oid = (if given = JUndefined \<or> given = JNull then fresh_oid (next_oid w) else given);
             w1 = (if given = JUndefined \<or> given = JNull
                   then w\<lparr>next_oid := Suc (next_oid w)\<rparr> else w);
             d' = (''_id'', oid) # AList.delete ''_id'' d
         in case store_call (InsertOne c d') w1 of
              (Some m, w2) \<Rightarrow> (Inl (MongoError m), w2)
            | (None, w2) \<Rightarrow>
                (Inr (JObj [(''acknowledged'', JBool True), (''insertedId'', oid)]),
                 set_coll c (get_coll c w2 @ [d']) w2)))"

text \<open>\<^verbatim>\<open>deleteOne({_id: oid})\<close> removes the first document that matches, if any.\<close>

definition deleteOne :: "coll_handle \<Rightarrow> jsval \<Rightarrow> world \<Rightarrow> (js_error + jsval) \<times> world" where
  "deleteOne h oid w =
     (case h of Coll c \<Rightarrow>
        (case store_call (DeleteOne c oid) w of
           (Some m, w') \<Rightarrow> (Inl (MongoError m), w')
         | (None, w') \<Rightarrow>
             (case find (\<lambda>d. eq_match d ''_id'' oid) (get_coll c w') of
                None \<Rightarrow>
                  (Inr (JObj [(''acknowledged'', JBool True), (''deletedCount'', JNum 0)]), w')
              | Some d \<Rightarrow>
                  (Inr (JObj [(''acknowledged'', JBool True), (''deletedCount'', JNum 1)]),
                   set_coll c (remove1 d (get_coll c w')) w'))))"

text \<open>
  \<^verbatim>\<open>cloudinary.uploader.destroy(publicId)\<close>. The first argument is the error the
  media host raises on this call, if any; otherwise the file is gone afterwards.
\<close>

definition destroy :: "string option \<Rightarrow> string \<Rightarrow> world \<Rightarrow> (js_error + unit) \<times> world" where
  "destroy fault public_id w =
     (case fault of
        Some m \<Rightarrow> (Inl (Error m), w)
      | None \<Rightarrow> (Inr (), w\<lparr>media := removeAll public_id (media w)\<rparr>))"

section \<open>Requests, responses and the upload middleware\<close>

text \<open>
  \<^verbatim>\<open>req.file\<close> as the handlers read it: \<open>path\<close> is the stored file's URL,
  \<open>filename\<close> its public id at the media host.
\<close>

record req_file =
  path :: string
  filename :: string

text \<open>
  The file part of a multipart body: its length in bytes, and what the media host
  answers when the bytes are forwarded to it (an error message, or the stored file).
\<close>

record image_part =
  bytes :: nat
  upload_reply :: "string + req_file"

datatype multipart =
    NoImage
  | Image image_part
  | UnexpectedFile

text \<open>
  A request as a handler sees it: the route parameter \<^verbatim>\<open>:id\<close>, the parsed body
  fields, the file part, the clock at the time of handling (milliseconds), and the fault
  of the media host's delete call, should the handler make one.
\<close>

record request =
  params_id :: string
  body :: doc
  multipart :: multipart
  now :: nat
  destroy_fault :: "string option"

text \<open>
  What becomes of a request. \<open>Json s v\<close> is \<^verbatim>\<open>res.status(s).json(v)\<close> and \<open>Text s t\<close>
  is \<^verbatim>\<open>res.send(t)\<close>. \<open>NextErr e\<close>: a middleware called \<^verbatim>\<open>next(e)\<close>; the file
  registers no error middleware, so the framework's default error handler answers
  (status 500 for an error without a status of its own, body not JSON).
  \<open>Rejected e\<close>: the promise of an async handler rejected with \<open>e\<close> and the handler
  wrote no response.
\<close>

datatype outcome =
    Json nat jsval
  | Text nat string
  | NextErr js_error
  | Rejected js_error

fun status_of :: "outcome \<Rightarrow> nat option" where
  "status_of (Json s v) = Some s"
| "status_of (Text s t) = Some s"
| "status_of (NextErr e) = Some 500"
| "status_of (Rejected e) = None"

definition fileSize_limit :: nat where
  "fileSize_limit = 5 * 1024 * 1024"

text \<open>
  \<^verbatim>\<open>upload.single('image')\<close>: multer with the Cloudinary storage and the
  \<^verbatim>\<open>fileSize\<close> limit. The result is the error handed to the callback, or
  \<^verbatim>\<open>req.file\<close> (\<open>None\<close> when the body has no such part).
\<close>

definition upload_single :: "request \<Rightarrow> world \<Rightarrow> (js_error + req_file option) \<times> world" where
  "upload_single req w =
     (case multipart req of
        NoImage \<Rightarrow> (Inr None, w)
      | UnexpectedFile \<Rightarrow> (Inl (MulterError ''LIMIT_UNEXPECTED_FILE'' ''Unexpected field''), w)
      | Image p \<Rightarrow>
          if fileSize_limit < bytes p
          then (Inl (MulterError ''LIMIT_FILE_SIZE'' ''File too large''), w)
          else (case upload_reply p of
                  Inl m \<Rightarrow> (Inl (Error m), w)
                | Inr f \<Rightarrow> (Inr (Some f), w\<lparr>media := media w @ [filename f]\<rparr>)))"

definition message_body :: "string \<Rightarrow> jsval" where
  "message_body m = JObj [(''message'', JStr m)]"

text \<open>\<^verbatim>\<open>safeUpload\<close>: either it answers the request itself, or it calls \<^verbatim>\<open>next()\<close>.\<close>

definition safeUpload :: "request \<Rightarrow> world \<Rightarrow> (outcome + req_file) \<times> world" where
  "safeUpload req w =
     (case upload_single req w of
        (Inl err, w') \<Rightarrow>
          (case err of
             MulterError code m \<Rightarrow>
               if code = ''LIMIT_FILE_SIZE''
               then (Inl (Json 400 (message_body ''File too large. Maximum 5MB allowed.'')), w')
               else (Inl (Json 400 (message_body m)), w')
           | _ \<Rightarrow> (Inl (Json 500 (message_body ''Error uploading file'')), w'))
      | (Inr None, w') \<Rightarrow> (Inl (Json 400 (message_body ''Please upload an image'')), w')
      | (Inr (Some f), w') \<Rightarrow> (Inr f, w'))"

text \<open>\<^verbatim>\<open>sendResponse(res, status, data)\<close>; reading \<^verbatim>\<open>data.message\<close> can throw.\<close>

definition sendResponse :: "nat \<Rightarrow> jsval \<Rightarrow> js_error + jsval" where
  "sendResponse status data =
     (case get_member data ''message'' of
        Inl e \<Rightarrow> Inl e
      | Inr m \<Rightarrow> Inr (JObj [(''status'', JNum (int status)), (''result'', data), (''message'', m)]))"

text \<open>
  \<^verbatim>\<open>res.status(s).json(sendResponse(res, s, { message: err.message }))\<close>, the last
  statement of every catch block.
\<close>

definition catch_reply :: "nat \<Rightarrow> js_error \<Rightarrow> outcome" where
  "catch_reply s err =
     (case sendResponse s (message_body (message err)) of
        Inl e \<Rightarrow> Rejected e
      | Inr v \<Rightarrow> Json s v)"

text \<open>
  \<^verbatim>\<open>res.status(s).json(sendResponse(res, s, data))\<close> inside a try block whose catch
  block does nothing but answer with status \<open>c\<close>.
\<close>

definition try_reply :: "nat \<Rightarrow> jsval \<Rightarrow> nat \<Rightarrow> outcome" where
  "try_reply s data c =
     (case sendResponse s data of
        Inl e \<Rightarrow> catch_reply c e
      | Inr v \<Rightarrow> Json s v)"

section \<open>The route handlers\<close>

text \<open>\<^verbatim>\<open>{ ...req.body, image: req.file.path, createdAt: new Date() }\<close>\<close>

definition image_item :: "request \<Rightarrow> req_file \<Rightarrow> doc" where
  "image_item req f =
     AList.update ''createdAt'' (JDate (now req))
       (AList.update ''image'' (JStr (path f)) (body req))"

text \<open>\<^verbatim>\<open>{ ...req.body, createdAt: new Date() }\<close>\<close>

definition plain_item :: "request \<Rightarrow> doc" where
  "plain_item req = AList.update ''createdAt'' (JDate (now req)) (body req)"

text \<open>
  The catch block of the three image routes: the uploaded file is destroyed when
  \<^verbatim>\<open>req.file && req.file.filename\<close>, then the error is answered with status 400. A
  \<^verbatim>\<open>destroy\<close> that throws is awaited inside the catch block, so it rejects the
  handler's promise.
\<close>

definition create_catch :: "request \<Rightarrow> req_file option \<Rightarrow> js_error \<Rightarrow> world \<Rightarrow> outcome \<times> world" where
  "create_catch req file err w =
     (case (case file of
              None \<Rightarrow> (Inr (), w)
            | Some f \<Rightarrow>
                if filename f \<noteq> [] then destroy (destroy_fault req) (filename f) w
                else (Inr (), w)) of
        (Inl e, w') \<Rightarrow> (Rejected e, w')
      | (Inr u, w') \<Rightarrow> (catch_reply 400 err, w'))"

text \<open>The try block of the three image routes, from the construction of the item on.\<close>

definition insert_image_item :: "collection_name \<Rightarrow> request \<Rightarrow> req_file \<Rightarrow> world \<Rightarrow> outcome \<times> world" where
  "insert_image_item c req f w =
     (case collection w c of
        Inl e \<Rightarrow> create_catch req (Some f) e w
      | Inr h \<Rightarrow>
          (case insertOne h (image_item req f) w of
             (Inl e, w') \<Rightarrow> create_catch req (Some f) e w'
           | (Inr result, w') \<Rightarrow>
               (case sendResponse 201 result of
                  Inl e \<Rightarrow> create_catch req (Some f) e w'
                | Inr v \<Rightarrow> (Json 201 v, w'))))"

text \<open>
  \<^verbatim>\<open>app.post('/api/services', upload.single('image'), ...)\<close> and the same for
  \<^verbatim>\<open>/api/galleries\<close>: multer is the middleware itself, so its error goes to
  \<^verbatim>\<open>next\<close>; the handler checks \<^verbatim>\<open>req.file\<close> on its own.
\<close>

definition upload_then_create :: "collection_name \<Rightarrow> request \<Rightarrow> world \<Rightarrow> outcome \<times> world" where
  "upload_then_create c req w =
     (case upload_single req w of
        (Inl e, w') \<Rightarrow> (NextErr e, w')
      | (Inr None, w') \<Rightarrow> (Json 400 (message_body ''Please upload an image''), w')
      | (Inr (Some f), w') \<Rightarrow> insert_image_item c req f w')"

definition post_services :: "request \<Rightarrow> world \<Rightarrow> outcome \<times> world" where
  "post_services = upload_then_create Services"

definition post_galleries :: "request \<Rightarrow> world \<Rightarrow> outcome \<times> world" where
  "post_galleries = upload_then_create Galleries"

text \<open>\<^verbatim>\<open>app.post('/api/banners', safeUpload, ...)\<close>\<close>

definition post_banners :: "request \<Rightarrow> world \<Rightarrow> outcome \<times> world" where
  "post_banners req w =
     (case safeUpload req w of
        (Inl answered, w') \<Rightarrow> (answered, w')
      | (Inr f, w') \<Rightarrow> insert_image_item Banners req f w')"

definition post_faqs :: "request \<Rightarrow> world \<Rightarrow> outcome \<times> world" where
  "post_faqs req w =
     (case collection w Faqs of
        Inl e \<Rightarrow> (catch_reply 400 e, w)
      | Inr h \<Rightarrow>
          (case insertOne h (plain_item req) w of
             (Inl e, w') \<Rightarrow> (catch_reply 400 e, w')
           | (Inr result, w') \<Rightarrow> (try_reply 201 result 400, w')))"

text \<open>\<^verbatim>\<open>GET /api/services\<close>, \<^verbatim>\<open>/api/banners\<close>, \<^verbatim>\<open>/api/faqs\<close>, \<^verbatim>\<open>/api/galleries\<close>\<close>

definition list_handler :: "collection_name \<Rightarrow> request \<Rightarrow> world \<Rightarrow> outcome \<times> world" where
  "list_handler c req w =
     (case collection w c of
        Inl e \<Rightarrow> (catch_reply 400 e, w)
      | Inr h \<Rightarrow>
          (case find_toArray h w of
             (Inl e, w') \<Rightarrow> (catch_reply 400 e, w')
           | (Inr result, w') \<Rightarrow> (try_reply 200 result 400, w')))"

text \<open>\<^verbatim>\<open>GET /api/services/:id\<close>\<close>

definition get_service_by_id :: "request \<Rightarrow> world \<Rightarrow> outcome \<times> world" where
  "get_service_by_id req w =
     (if \<not> ObjectId_isValid (params_id req)
      then (Json 400 (message_body ''Invalid service ID''), w)
      else
        (case collection w Services of
           Inl e \<Rightarrow> (catch_reply 500 e, w)
         | Inr h \<Rightarrow>
             (case new_ObjectId (params_id req) of
                Inl e \<Rightarrow> (catch_reply 500 e, w)
              | Inr oid \<Rightarrow>
                  (case findOne h ''_id'' oid w of
                     (Inl e, w') \<Rightarrow> (catch_reply 500 e, w')
                   | (Inr service, w') \<Rightarrow>
                       if \<not> truthy service
                       then (Json 404 (message_body ''Service not found''), w')
                       else (try_reply 200 service 500, w')))))"

text \<open>
  \<^verbatim>\<open>DELETE /api/services/:id\<close> and the same for banners, faqs and galleries:
  \<^verbatim>\<open>db.collection(c).deleteOne({ _id: new ObjectId(req.params.id) })\<close> evaluates
  \<^verbatim>\<open>db.collection(c)\<close>, then the argument, then makes the call.
\<close>

definition delete_handler :: "collection_name \<Rightarrow> request \<Rightarrow> world \<Rightarrow> outcome \<times> world" where
  "delete_handler c req w =
     (case collection w c of
        Inl e \<Rightarrow> (catch_reply 400 e, w)
      | Inr h \<Rightarrow>
          (case new_ObjectId (params_id req) of
             Inl e \<Rightarrow> (catch_reply 400 e, w)
           | Inr oid \<Rightarrow>
               (case deleteOne h oid w of
                  (Inl e, w') \<Rightarrow> (catch_reply 400 e, w')
                | (Inr result, w') \<Rightarrow> (try_reply 200 result 400, w'))))"

text \<open>\<^verbatim>\<open>db.collection(c).countDocuments()\<close>\<close>

definition count_in :: "collection_name \<Rightarrow> world \<Rightarrow> (js_error + jsval) \<times> world" where
  "count_in c w =
     (case collection w c of
        Inl e \<Rightarrow> (Inl e, w)
      | Inr h \<Rightarrow> countDocuments h w)"

definition dashboard_stats :: "request \<Rightarrow> world \<Rightarrow> outcome \<times> world" where
  "dashboard_stats req w =
     (case count_in Services w of
        (Inl e, w1) \<Rightarrow> (catch_reply 400 e, w1)
      | (Inr totalServices, w1) \<Rightarrow>
     (case count_in Banners w1 of
        (Inl e, w2) \<Rightarrow> (catch_reply 400 e, w2)
      | (Inr totalBanners, w2) \<Rightarrow>
     (case count_in Faqs w2 of
        (Inl e, w3) \<Rightarrow> (catch_reply 400 e, w3)
      | (Inr totalFaqs, w3) \<Rightarrow>
     (case count_in Galleries w3 of
        (Inl e, w4) \<Rightarrow> (catch_reply 400 e, w4)
      | (Inr totalGalleries, w4) \<Rightarrow>
          (try_reply 200
             (JObj [(''totalServices'', totalServices), (''totalBanners'', totalBanners),
                    (''totalFaqs'', totalFaqs), (''totalGalleries'', totalGalleries)])
             400, w4)))))"

text \<open>
  \<^verbatim>\<open>jwt.sign(payload, secret, { expiresIn: '100d' })\<close>: the claims are the payload,
  the time of issue in seconds and the expiry 100 days later.
\<close>

definition jwt_sign :: "doc \<Rightarrow> string \<Rightarrow> nat \<Rightarrow> jsval" where
  "jwt_sign payload secret now_ms =
     JJwt (payload @ [(''iat'', JNum (int (now_ms div 1000))),
                      (''exp'', JNum (int (now_ms div 1000 + 100 * 86400)))]) secret"

text \<open>
  \<^verbatim>\<open>POST /api/login\<close>. The token is signed from \<^verbatim>\<open>user.email\<close> before
  \<^verbatim>\<open>user\<close> is tested.
\<close>

definition login :: "request \<Rightarrow> world \<Rightarrow> outcome \<times> world" where
  "login req w =
     (let email = lookup (body req) ''email'';
          password = lookup (body req) ''password''
      in case collection w Users of
           Inl e \<Rightarrow> (catch_reply 400 e, w)
         | Inr h \<Rightarrow>
             (case findOne h ''email'' email w of
                (Inl e, w') \<Rightarrow> (catch_reply 400 e, w')
              | (Inr user, w') \<Rightarrow>
                  (case get_member user ''email'' of
                     Inl e \<Rightarrow> (catch_reply 400 e, w')
                   | Inr user_email \<Rightarrow>
                       (let token = jwt_sign [(''email'', user_email)] ''jwt-secret'' (now req)
                        in if \<not> truthy user
                           then (try_reply 401 (message_body ''Invalid email address'') 400, w')
                           else
                             (case get_member user ''password'' of
                                Inl e \<Rightarrow> (catch_reply 400 e, w')
                              | Inr user_password \<Rightarrow>
                                  if \<not> strict_eq user_password password
                                  then (try_reply 401 (message_body ''Invalid password'') 400, w')
                                  else (try_reply 200
                                          (JObj [(''user'', user), (''token'', token)]) 400, w'))))))"

text \<open>\<^verbatim>\<open>GET /\<close>\<close>

definition root :: "request \<Rightarrow> world \<Rightarrow> outcome \<times> world" where
  "root req w = (Text 200 ''Server is running successfully!'', w)"

datatype route =
    Root
  | PostServices | GetServices | GetServiceById | DeleteService
  | PostBanners | GetBanners | DeleteBanner
  | PostFaqs | GetFaqs | DeleteFaq
  | PostGalleries | GetGalleries | DeleteGallery
  | DashboardStats
  | Login

fun handle :: "route \<Rightarrow> request \<Rightarrow> world \<Rightarrow> outcome \<times> world" where
  "handle Root = root"
| "handle PostServices = post_services"
| "handle GetServices = list_handler Services"
| "handle GetServiceById = get_service_by_id"
| "handle DeleteService = delete_handler Services"
| "handle PostBanners = post_banners"
| "handle GetBanners = list_handler Banners"
| "handle DeleteBanner = delete_handler Banners"
| "handle PostFaqs = post_faqs"
| "handle GetFaqs = list_handler Faqs"
| "handle DeleteFaq = delete_handler Faqs"
| "handle PostGalleries = post_galleries"
| "handle GetGalleries = list_handler Galleries"
| "handle DeleteGallery = delete_handler Galleries"
| "handle DashboardStats = dashboard_stats"
| "handle Login = login"

section \<open>The admin seed\<close>

definition admin_email :: jsval where
  "admin_email = JStr ''admin@admin.com''"

text \<open>\<^verbatim>\<open>seedAdmin\<close>: every error is caught and logged, nothing is returned.\<close>

definition seedAdmin :: "world \<Rightarrow> world" where
  "seedAdmin w =
     (case collection w Users of
        Inl e \<Rightarrow> w
      | Inr h \<Rightarrow>
          (case findOne h ''email'' admin_email w of
             (Inl e, w') \<Rightarrow> w'
           | (Inr admin, w') \<Rightarrow>
               if truthy admin then w'
               else
                 (case collection w' Users of
                    Inl e \<Rightarrow> w'
                  | Inr h' \<Rightarrow>
                      snd (insertOne h' [(''email'', admin_email), (''password'', JStr ''admin'')] w'))))"

section \<open>Process events\<close>

text \<open>
  The listeners the file registers with \<^verbatim>\<open>process.on\<close> for the two error events,
  named after the place of registration: one at module level for
  \<^verbatim>\<open>unhandledRejection\<close>, and in every call of \<^verbatim>\<open>startServer\<close> one for
  \<^verbatim>\<open>uncaughtException\<close> and one for \<^verbatim>\<open>unhandledRejection\<close>.
\<close>

datatype event = UnhandledRejection | UncaughtException

datatype listener =
    ModuleUnhandledRejection
  | StartUncaughtException
  | StartUnhandledRejection

record process =
  listeners :: "(event \<times> listener) list"
  console :: "string list"
  exit_code :: "nat option"

definition process_on :: "event \<Rightarrow> listener \<Rightarrow> process \<Rightarrow> process" where
  "process_on ev l p = p\<lparr>listeners := listeners p @ [(ev, l)]\<rparr>"

definition process_exit :: "nat \<Rightarrow> process \<Rightarrow> process" where
  "process_exit code p = (if exit_code p = None then p\<lparr>exit_code := Some code\<rparr> else p)"

definition console_error :: "string \<Rightarrow> process \<Rightarrow> process" where
  "console_error line p = p\<lparr>console := console p @ [line]\<rparr>"

text \<open>
  The body of each listener; the result says whether it threw. The module-level
  listener reads \<^verbatim>\<open>server\<close>, which is declared only inside \<^verbatim>\<open>startServer\<close>: at
  module level the name is not in scope and reading it throws a ReferenceError. The
  second rejection listener only logs (its \<^verbatim>\<open>process.exit(1)\<close> is commented out).
\<close>

fun run_listener :: "listener \<Rightarrow> process \<Rightarrow> js_error option \<times> process" where
  "run_listener ModuleUnhandledRejection p =
     (Some (ReferenceError ''server is not defined''),
      console_error ''Unhandled Promise Rejection:'' p)"
| "run_listener StartUncaughtException p =
     (None, process_exit 1 (console_error ''Uncaught Exception:'' p))"
| "run_listener StartUnhandledRejection p =
     (None, console_error ''Unhandled Rejection at:'' p)"

text \<open>
  \<^verbatim>\<open>process.emit\<close>: the listeners run in the order of registration; one that throws
  ends the run, and nothing runs once the process has exited.
\<close>

fun run_listeners :: "listener list \<Rightarrow> process \<Rightarrow> js_error option \<times> process" where
  "run_listeners [] p = (None, p)"
| "run_listeners (l # ls) p =
     (if exit_code p \<noteq> None then (None, p)
      else case run_listener l p of
             (Some e, p') \<Rightarrow> (Some e, p')
           | (None, p') \<Rightarrow> run_listeners ls p')"

definition listeners_of :: "event \<Rightarrow> process \<Rightarrow> listener list" where
  "listeners_of ev p = map snd (filter (\<lambda>x. fst x = ev) (listeners p))"

text \<open>
  An exception that nothing caught: the runtime gives it to the
  \<^verbatim>\<open>uncaughtException\<close> listeners; without one it exits with code 1, and with code 7
  when such a listener throws itself.
\<close>

definition uncaught :: "process \<Rightarrow> process" where
  "uncaught p =
     (case listeners_of UncaughtException p of
        [] \<Rightarrow> process_exit 1 p
      | l # ls \<Rightarrow>
          (case run_listeners (l # ls) p of
             (Some e, p') \<Rightarrow> process_exit 7 p'
           | (None, p') \<Rightarrow> p'))"

text \<open>
  The runtime raising an event: a rejection nobody handles goes to the
  \<^verbatim>\<open>unhandledRejection\<close> listeners, and becomes an uncaught exception when there is
  none or when one of them throws.
\<close>

fun emit :: "event \<Rightarrow> process \<Rightarrow> process" where
  "emit UncaughtException p = uncaught p"
| "emit UnhandledRejection p =
     (case listeners_of UnhandledRejection p of
        [] \<Rightarrow> uncaught p
      | l # ls \<Rightarrow>
          (case run_listeners (l # ls) p of
             (Some e, p') \<Rightarrow> uncaught p'
           | (None, p') \<Rightarrow> p'))"

text \<open>
  The listeners in place once the module has loaded: the module-level registration,
  then \<^verbatim>\<open>startServer\<close>, which runs once more for every port it finds in use. Of
  \<^verbatim>\<open>startServer\<close> only the registration of the two error listeners is kept here;
  binding the port and the two signal listeners play no part in these events.
\<close>

definition startServer :: "process \<Rightarrow> process" where
  "startServer p =
     process_on UnhandledRejection StartUnhandledRejection
       (process_on UncaughtException StartUncaughtException p)"

fun booted :: "nat \<Rightarrow> process" where
  "booted 0 =
     startServer (process_on UnhandledRejection ModuleUnhandledRejection
       \<lparr>listeners = [], console = [], exit_code = None\<rparr>)"
| "booted (Suc retries) = startServer (booted retries)"

section \<open>Shapes of response bodies, example requests and store states\<close>

text \<open>
  The envelope \<^verbatim>\<open>{status, result, message}\<close> with the status it carries, and with
  \<^verbatim>\<open>message\<close> read from the result (\<^verbatim>\<open>undefined\<close> when the result has none).
\<close>

definition is_envelope :: "nat \<Rightarrow> jsval \<Rightarrow> bool" where
  "is_envelope s v =
     (case v of
        JObj kvs \<Rightarrow>
          map fst kvs = [''status'', ''result'', ''message''] \<and>
          lookup kvs ''status'' = JNum (int s) \<and>
          get_member (lookup kvs ''result'') ''message'' = Inr (lookup kvs ''message'')
      | _ \<Rightarrow> False)"

text \<open>The bare body \<^verbatim>\<open>{ message: '...' }\<close>.\<close>

definition is_bare_message :: "jsval \<Rightarrow> bool" where
  "is_bare_message v =
     (case v of
        JObj kvs \<Rightarrow>
          map fst kvs = [''message''] \<and>
          (case lookup kvs ''message'' of JStr m \<Rightarrow> True | _ \<Rightarrow> False)
      | _ \<Rightarrow> False)"

text \<open>The store is connected and lets the next call through.\<close>

definition store_answers :: "world \<Rightarrow> bool" where
  "store_answers w = (db_ready w \<and> (case faults w of Some m # fs \<Rightarrow> False | _ \<Rightarrow> True))"

text \<open>The filter value \<^verbatim>\<open>new ObjectId(req.params.id)\<close> of a well-formed identifier.\<close>

definition id_filter :: "request \<Rightarrow> jsval" where
  "id_filter req = JOid (map lower_hex (params_id req))"

text \<open>
  The answer of the early checks, where one of them fires: the status and the message of
  the bare body. On the services and galleries routes that is the missing file; behind
  \<^verbatim>\<open>safeUpload\<close> also a multer error and a failed upload; on the lookup of a
  service the invalid id and, once the store has answered, the missing service.
\<close>

definition validation_reply :: "route \<Rightarrow> request \<Rightarrow> world \<Rightarrow> (nat \<times> string) option" where
  "validation_reply r req w =
     (if r = PostServices \<or> r = PostGalleries then
        (if multipart req = NoImage then Some (400, ''Please upload an image'') else None)
      else if r = PostBanners then
        (case multipart req of
           NoImage \<Rightarrow> Some (400, ''Please upload an image'')
         | UnexpectedFile \<Rightarrow> Some (400, ''Unexpected field'')
         | Image p \<Rightarrow>
             if fileSize_limit < bytes p
             then Some (400, ''File too large. Maximum 5MB allowed.'')
             else (case upload_reply p of
                     Inl m \<Rightarrow> Some (500, ''Error uploading file'')
                   | Inr f \<Rightarrow> None))
      else if r = GetServiceById then
        (if \<not> ObjectId_isValid (params_id req) then Some (400, ''Invalid service ID'')
         else if store_answers w \<and>
                 \<not> (\<exists>d \<in> set (services w). eq_match d ''_id'' (id_filter req))
         then Some (404, ''Service not found'')
         else None)
      else None)"

definition empty_world :: world where
  "empty_world =
     \<lparr>db_ready = True, services = [], banners = [], faqs = [], galleries = [], users = [],
      media = [], next_oid = 0, faults = [], db_log = []\<rparr>"

definition admin_doc :: doc where
  "admin_doc =
     [(''_id'', JOid ''000000000000000000000000''), (''email'', JStr ''admin@admin.com''),
      (''password'', JStr ''admin'')]"

definition seeded_world :: world where
  "seeded_world = empty_world\<lparr>users := [admin_doc], next_oid := 1\<rparr>"

definition service_doc :: doc where
  "service_doc =
     [(''_id'', JOid ''0123456789abcdef01234567''), (''title'', JStr ''Repair''),
      (''image'', JStr ''https://res.cloudinary.com/demo/image/upload/anando-computer/a.png''),
      (''createdAt'', JDate 1700000000000)]"

definition shop_world :: world where
  "shop_world = seeded_world\<lparr>services := [service_doc]\<rparr>"

definition plain_request :: request where
  "plain_request =
     \<lparr>params_id = [], body = [], multipart = NoImage, now = 1700000000000,
      destroy_fault = None\<rparr>"

definition example_file :: req_file where
  "example_file =
     \<lparr>path = ''https://res.cloudinary.com/demo/image/upload/anando-computer/a.png'',
      filename = ''anando-computer/a''\<rparr>"

definition oversized_request :: request where
  "oversized_request =
     plain_request\<lparr>body := [(''title'', JStr ''Repair'')],
       multipart := Image \<lparr>bytes = 6 * 1024 * 1024, upload_reply = Inr example_file\<rparr>\<rparr>"

definition unknown_login :: request where
  "unknown_login =
     plain_request\<lparr>body := [(''email'', JStr ''nobody@example.com''), (''password'', JStr ''x'')]\<rparr>"

definition malformed_request :: request where
  "malformed_request = plain_request\<lparr>params_id := ''abc''\<rparr>"

definition known_id_request :: request where
  "known_id_request = plain_request\<lparr>params_id := ''0123456789ABCDEF01234567''\<rparr>"

definition unknown_id_request :: request where
  "unknown_id_request = plain_request\<lparr>params_id := ''ffffffffffffffffffffffff''\<rparr>"

definition faulty_world :: world where
  "faulty_world = shop_world\<lparr>faults := [Some ''connection closed'']\<rparr>"

definition stored_request :: request where
  "stored_request =
     plain_request\<lparr>body := [(''title'', JStr ''Repair''), (''image'', JStr ''mine.png''),
                             (''createdAt'', JStr ''1999-01-01'')],
       multipart := Image \<lparr>bytes = 1024, upload_reply = Inr example_file\<rparr>\<rparr>"

definition unrepairable_request :: request where
  "unrepairable_request = stored_request\<lparr>destroy_fault := Some ''media host unreachable''\<rparr>"

text \<open>A user document that the seed's filter \<^verbatim>\<open>{ email: 'admin@admin.com' }\<close> selects.\<close>

definition is_admin :: "doc \<Rightarrow> bool" where
  "is_admin d = eq_match d ''email'' admin_email"

text \<open>Every call the store is still to answer goes through.\<close>

definition no_faults :: "world \<Rightarrow> bool" where
  "no_faults w = list_all (\<lambda>f. f = None) (faults w)"

definition twin_admin_world :: world where
  "twin_admin_world =
     empty_world\<lparr>users := [admin_doc,
       [(''_id'', JOid ''000000000000000000000001''), (''email'', JStr ''admin@admin.com''),
        (''password'', JStr ''admin'')]], next_oid := 2\<rparr>"

section \<open>Basic facts\<close>

lemma find_Some_holds: "find P xs = Some x \<Longrightarrow> x \<in> set xs \<and> P x"
  by (induction xs) (auto split: if_splits)

lemma sendResponse_obj:
  "sendResponse s (JObj d) =
     Inr (JObj [(''status'', JNum (int s)), (''result'', JObj d), (''message'', lookup d ''message'')])"
  by (simp add: sendResponse_def)

lemma sendResponse_arr:
  "sendResponse s (JArr xs) =
     Inr (JObj [(''status'', JNum (int s)), (''result'', JArr xs), (''message'', JUndefined)])"
  by (simp add: sendResponse_def)

lemma catch_reply_eq:
  "catch_reply s e =
     Json s (JObj [(''status'', JNum (int s)), (''result'', message_body (message e)),
                   (''message'', JStr (message e))])"
  by (simp add: catch_reply_def message_body_def sendResponse_obj lookup_def)

lemma try_reply_obj:
  "try_reply s (JObj d) c =
     Json s (JObj [(''status'', JNum (int s)), (''result'', JObj d), (''message'', lookup d ''message'')])"
  by (simp add: try_reply_def sendResponse_obj)

lemma try_reply_arr:
  "try_reply s (JArr xs) c =
     Json s (JObj [(''status'', JNum (int s)), (''result'', JArr xs), (''message'', JUndefined)])"
  by (simp add: try_reply_def sendResponse_arr)

lemma sendResponse_envelope: "sendResponse s data = Inr v \<Longrightarrow> is_envelope s v"
  by (auto simp: sendResponse_def is_envelope_def lookup_def split: sum.splits)

lemma catch_reply_envelope: "catch_reply s e = Json s' v \<Longrightarrow> s' = s \<and> is_envelope s v"
  by (auto simp: catch_reply_eq is_envelope_def lookup_def message_body_def)

lemma try_reply_envelope: "try_reply s data c = Json s' v \<Longrightarrow> is_envelope s' v"
  by (auto simp: try_reply_def dest: sendResponse_envelope catch_reply_envelope split: sum.splits)

lemma bare_message_body: "is_bare_message (message_body m)"
  by (simp add: is_bare_message_def message_body_def lookup_def)

lemma new_ObjectId_valid:
  "ObjectId_isValid (params_id req) \<Longrightarrow> new_ObjectId (params_id req) = Inr (id_filter req)"
  by (simp add: new_ObjectId_def id_filter_def)

lemma new_ObjectId_invalid:
  "\<not> ObjectId_isValid s \<Longrightarrow>
   new_ObjectId s = Inl (BSONError ''input must be a 24 character hex string, 12 byte Uint8Array, or an integer'')"
  by (simp add: new_ObjectId_def)

lemma store_call_answers:
  "store_answers w \<Longrightarrow>
   store_call c w = (None, w\<lparr>faults := tl (faults w), db_log := db_log w @ [c]\<rparr>)"
  by (auto simp: store_answers_def store_call_def split: list.splits option.splits)

lemma store_call_fault:
  "faults w = Some m # fs \<Longrightarrow>
   store_call c w = (Some m, w\<lparr>faults := fs, db_log := db_log w @ [c]\<rparr>)"
  by (simp add: store_call_def)

lemma get_coll_after_call [simp]:
  "get_coll c (w\<lparr>faults := fs, db_log := l\<rparr>) = get_coll c w"
  by (cases c) simp_all

lemma get_coll_set_coll [simp]: "get_coll c (set_coll c ds w) = ds"
  by (cases c) simp_all

lemma known_id_valid: "ObjectId_isValid (params_id known_id_request)"
  by (simp add: known_id_request_def plain_request_def ObjectId_isValid_def is_hex_def)

lemma unknown_id_valid: "ObjectId_isValid (params_id unknown_id_request)"
  by (simp add: unknown_id_request_def plain_request_def ObjectId_isValid_def is_hex_def)

lemma malformed_id_invalid: "\<not> ObjectId_isValid (params_id malformed_request)"
  by (simp add: malformed_request_def plain_request_def ObjectId_isValid_def)

lemma shop_world_answers: "store_answers shop_world"
  by (simp add: store_answers_def shop_world_def seeded_world_def empty_world_def)

lemma known_id_filter: "id_filter known_id_request = JOid ''0123456789abcdef01234567''"
  by (simp add: id_filter_def known_id_request_def plain_request_def lower_hex_def)

lemma unknown_id_filter: "id_filter unknown_id_request = JOid ''ffffffffffffffffffffffff''"
  by (simp add: id_filter_def unknown_id_request_def plain_request_def lower_hex_def)

lemma service_doc_match: "eq_match service_doc ''_id'' (JOid ''0123456789abcdef01234567'')"
  by (simp add: eq_match_def service_doc_def)

lemma service_doc_no_match: "\<not> eq_match service_doc ''_id'' (JOid ''ffffffffffffffffffffffff'')"
  by (simp add: eq_match_def service_doc_def)

lemma shop_services: "services shop_world = [service_doc]"
  by (simp add: shop_world_def seeded_world_def empty_world_def)

section \<open>Oversized uploads (C1)\<close>

lemma upload_oversized:
  "multipart req = Image p \<Longrightarrow> fileSize_limit < bytes p \<Longrightarrow>
   upload_single req w = (Inl (MulterError ''LIMIT_FILE_SIZE'' ''File too large''), w)"
  by (simp add: upload_single_def)

text \<open>
  Behind \<^verbatim>\<open>safeUpload\<close> a file above the limit is answered as the specification says,
  and the store is left alone.
\<close>

lemma post_banners_oversized:
  "multipart req = Image p \<Longrightarrow> fileSize_limit < bytes p \<Longrightarrow>
   post_banners req w = (Json 400 (message_body ''File too large. Maximum 5MB allowed.''), w)"
  by (simp add: post_banners_def safeUpload_def upload_oversized)

text \<open>
  The services and galleries routes use multer directly: the same file leaves the route
  as an error for the framework, whatever the rest of the request.
\<close>

lemma upload_then_create_oversized:
  "multipart req = Image p \<Longrightarrow> fileSize_limit < bytes p \<Longrightarrow>
   upload_then_create c req w = (NextErr (MulterError ''LIMIT_FILE_SIZE'' ''File too large''), w)"
  by (simp add: upload_then_create_def upload_oversized)

text \<open>
  C1. The claim: every create request (services, banners, galleries) with a file above
  5 MiB is answered 400 with the message "File too large. Maximum 5MB allowed." and
  inserts no document. The code at a 6 MiB file: nothing is inserted on any of the three
  routes, but only the banners route gives that answer; on the services and galleries
  routes the multer error is passed to \<^verbatim>\<open>next\<close> and no handler of the file answers.
\<close>

theorem oversized_upload_outcomes:
  "post_services oversized_request empty_world =
     (NextErr (MulterError ''LIMIT_FILE_SIZE'' ''File too large''), empty_world) \<and>
   post_galleries oversized_request empty_world =
     (NextErr (MulterError ''LIMIT_FILE_SIZE'' ''File too large''), empty_world) \<and>
   post_banners oversized_request empty_world =
     (Json 400 (JObj [(''message'', JStr ''File too large. Maximum 5MB allowed.'')]), empty_world)"
  by (simp add: post_services_def post_galleries_def upload_then_create_def post_banners_def
      safeUpload_def upload_single_def oversized_request_def plain_request_def fileSize_limit_def
      message_body_def)

section \<open>Login (C2)\<close>

text \<open>
  C2. The claim: an email no user has is answered 401 "Invalid email address". The code
  at such a request: \<^verbatim>\<open>findOne\<close> gives \<^verbatim>\<open>null\<close>, reading \<^verbatim>\<open>user.email\<close> for the
  token throws before \<^verbatim>\<open>user\<close> is tested, and the catch block answers 400 with the
  TypeError's message.
\<close>

theorem login_unknown_email:
  "fst (login unknown_login seeded_world) =
     Json 400 (JObj [(''status'', JNum 400),
       (''result'', JObj [(''message'',
          JStr (''Cannot read properties of null (reading '' @ [CHR 0x27] @ ''email'' @ [CHR 0x27] @ '')''))]),
       (''message'',
          JStr (''Cannot read properties of null (reading '' @ [CHR 0x27] @ ''email'' @ [CHR 0x27] @ '')''))])"
  by (simp add: login_def unknown_login_def plain_request_def seeded_world_def empty_world_def
      admin_doc_def collection_def findOne_def store_call_def eq_match_def lookup_def
      catch_reply_eq message_body_def)

section \<open>Deleting by id (C4)\<close>

lemma delete_handler_valid:
  assumes "ObjectId_isValid (params_id req)" and "store_answers w"
  shows "fst (delete_handler c req w) =
           Json 200 (JObj [(''status'', JNum 200),
             (''result'', JObj [(''acknowledged'', JBool True),
                (''deletedCount'',
                 JNum (if \<exists>d \<in> set (get_coll c w). eq_match d ''_id'' (id_filter req) then 1 else 0))]),
             (''message'', JUndefined)])"
    and "get_coll c (snd (delete_handler c req w)) =
           (case find (\<lambda>d. eq_match d ''_id'' (id_filter req)) (get_coll c w) of
              None \<Rightarrow> get_coll c w
            | Some d \<Rightarrow> remove1 d (get_coll c w))"
proof -
  from assms(2) have ready: "db_ready w" by (simp add: store_answers_def)
  show "fst (delete_handler c req w) =
           Json 200 (JObj [(''status'', JNum 200),
             (''result'', JObj [(''acknowledged'', JBool True),
                (''deletedCount'',
                 JNum (if \<exists>d \<in> set (get_coll c w). eq_match d ''_id'' (id_filter req) then 1 else 0))]),
             (''message'', JUndefined)])"
    using assms ready
    by (auto simp: delete_handler_def collection_def new_ObjectId_valid deleteOne_def
        store_call_answers try_reply_obj lookup_def find_None_iff
        split: option.splits dest: find_Some_holds)
  show "get_coll c (snd (delete_handler c req w)) =
           (case find (\<lambda>d. eq_match d ''_id'' (id_filter req)) (get_coll c w) of
              None \<Rightarrow> get_coll c w
            | Some d \<Rightarrow> remove1 d (get_coll c w))"
    using assms ready
    by (auto simp: delete_handler_def collection_def new_ObjectId_valid deleteOne_def
        store_call_answers split: option.splits)
qed

lemma delete_handler_malformed:
  assumes "\<not> ObjectId_isValid (params_id req)"
  shows "\<exists>v. delete_handler c req w = (Json 400 v, w) \<and> is_envelope 400 v"
  using assms
  by (auto simp: delete_handler_def collection_def new_ObjectId_invalid catch_reply_eq
      is_envelope_def lookup_def message_body_def)

lemma delete_handler_status:
  "status_of (fst (delete_handler c req w)) = Some 200 \<or>
   status_of (fst (delete_handler c req w)) = Some 400"
  by (auto simp: delete_handler_def catch_reply_eq try_reply_def sendResponse_def
      deleteOne_def split: sum.splits prod.splits option.splits coll_handle.splits)

text \<open>
  C4, as amended. On every resource, a delete request whose identifier is well-formed,
  sent while the store answers, is answered 200 with the store's delete result, whose
  count is 1 when a document matches the identifier and 0 when none does; the first
  matching document, if any, is removed and nothing else. A malformed identifier is
  answered 400. No delete request is answered 404: the status is 200 or 400.
\<close>

theorem delete_by_id_outcome:
  "(ObjectId_isValid (params_id req) \<and> store_answers w \<longrightarrow>
      fst (delete_handler c req w) =
        Json 200 (JObj [(''status'', JNum 200),
          (''result'', JObj [(''acknowledged'', JBool True),
             (''deletedCount'',
              JNum (if \<exists>d \<in> set (get_coll c w). eq_match d ''_id'' (id_filter req) then 1 else 0))]),
          (''message'', JUndefined)]) \<and>
      get_coll c (snd (delete_handler c req w)) =
        (case find (\<lambda>d. eq_match d ''_id'' (id_filter req)) (get_coll c w) of
           None \<Rightarrow> get_coll c w
         | Some d \<Rightarrow> remove1 d (get_coll c w))) \<and>
   (\<not> ObjectId_isValid (params_id req) \<longrightarrow> status_of (fst (delete_handler c req w)) = Some 400) \<and>
   (status_of (fst (delete_handler c req w)) = Some 200 \<or>
    status_of (fst (delete_handler c req w)) = Some 400)"
proof (intro conjI impI)
  assume ok: "ObjectId_isValid (params_id req) \<and> store_answers w"
  then show "fst (delete_handler c req w) =
        Json 200 (JObj [(''status'', JNum 200),
          (''result'', JObj [(''acknowledged'', JBool True),
             (''deletedCount'',
              JNum (if \<exists>d \<in> set (get_coll c w). eq_match d ''_id'' (id_filter req) then 1 else 0))]),
          (''message'', JUndefined)])"
    by (simp add: delete_handler_valid(1))
  from ok show "get_coll c (snd (delete_handler c req w)) =
        (case find (\<lambda>d. eq_match d ''_id'' (id_filter req)) (get_coll c w) of
           None \<Rightarrow> get_coll c w
         | Some d \<Rightarrow> remove1 d (get_coll c w))"
    by (simp add: delete_handler_valid(2))
next
  assume "\<not> ObjectId_isValid (params_id req)"
  from delete_handler_malformed [OF this, of c w]
  show "status_of (fst (delete_handler c req w)) = Some 400" by auto
next
  show "status_of (fst (delete_handler c req w)) = Some 200 \<or>
    status_of (fst (delete_handler c req w)) = Some 400"
    by (rule delete_handler_status)
qed

text \<open>
  The theorem at three requests on a store with one service: deleting it (the id written
  in upper case), deleting an id nobody has, and a malformed id.
\<close>

theorem delete_by_id_outcome_witness:
  "fst (delete_handler Services known_id_request shop_world) =
     Json 200 (JObj [(''status'', JNum 200),
       (''result'', JObj [(''acknowledged'', JBool True), (''deletedCount'', JNum 1)]),
       (''message'', JUndefined)]) \<and>
   get_coll Services (snd (delete_handler Services known_id_request shop_world)) = [] \<and>
   fst (delete_handler Services unknown_id_request shop_world) =
     Json 200 (JObj [(''status'', JNum 200),
       (''result'', JObj [(''acknowledged'', JBool True), (''deletedCount'', JNum 0)]),
       (''message'', JUndefined)]) \<and>
   get_coll Services (snd (delete_handler Services unknown_id_request shop_world)) = [service_doc] \<and>
   status_of (fst (delete_handler Services malformed_request shop_world)) = Some 400"
  using delete_by_id_outcome [of known_id_request shop_world Services]
    delete_by_id_outcome [of unknown_id_request shop_world Services]
    delete_by_id_outcome [of malformed_request shop_world Services]
  by (simp add: known_id_valid unknown_id_valid malformed_id_invalid shop_world_answers
      known_id_filter unknown_id_filter shop_services service_doc_match service_doc_no_match)

text \<open>
  C4 as stated fails: a delete request with the identifier \<^verbatim>\<open>abc\<close> is answered 400,
  not 200.
\<close>

theorem delete_malformed_id_is_400:
  "status_of (fst (delete_handler Services malformed_request shop_world)) = Some 400"
  by (simp add: delete_handler_def collection_def shop_world_def seeded_world_def empty_world_def
      new_ObjectId_invalid malformed_id_invalid catch_reply_eq)

section \<open>Malformed identifiers (C5)\<close>

lemma get_service_by_id_malformed:
  "\<not> ObjectId_isValid (params_id req) \<Longrightarrow>
   get_service_by_id req w = (Json 400 (message_body ''Invalid service ID''), w)"
  by (simp add: get_service_by_id_def)

text \<open>
  C5. For a malformed identifier, the delete handler of every resource and the lookup of
  a service answer with the client error 400 and leave everything outside the process as
  it was: no call reaches the store (its log is the same, none of its answers is used).
  The lookup tests the identifier with \<^verbatim>\<open>ObjectId.isValid\<close>; the delete handlers
  build the ObjectId before the call, which throws into their catch block.
\<close>

theorem malformed_id_client_error_no_query:
  assumes "\<not> ObjectId_isValid (params_id req)"
  shows "(\<exists>v. delete_handler c req w = (Json 400 v, w) \<and> is_envelope 400 v) \<and>
         get_service_by_id req w = (Json 400 (message_body ''Invalid service ID''), w) \<and>
         db_log (snd (delete_handler c req w)) = db_log w \<and>
         db_log (snd (get_service_by_id req w)) = db_log w"
proof -
  from delete_handler_malformed [OF assms, of c w]
  obtain v where v: "delete_handler c req w = (Json 400 v, w)" "is_envelope 400 v" by blast
  from v get_service_by_id_malformed [OF assms, of w] show ?thesis by simp
qed

text \<open>The theorem at the identifier \<^verbatim>\<open>abc\<close>, on the banners and on the services.\<close>

theorem malformed_id_client_error_no_query_witness:
  "status_of (fst (delete_handler Banners malformed_request shop_world)) = Some 400 \<and>
   snd (delete_handler Banners malformed_request shop_world) = shop_world \<and>
   get_service_by_id malformed_request shop_world =
     (Json 400 (JObj [(''message'', JStr ''Invalid service ID'')]), shop_world)"
  using malformed_id_client_error_no_query [OF malformed_id_invalid, of Banners shop_world]
  by (auto simp: message_body_def)

section \<open>Looking a service up by id (C6)\<close>

lemma get_service_by_id_fault:
  assumes "ObjectId_isValid (params_id req)" and "\<not> store_answers w"
  shows "\<exists>v. fst (get_service_by_id req w) = Json 500 v \<and> is_envelope 500 v"
proof (cases "db_ready w")
  case False
  with assms show ?thesis
    by (simp add: get_service_by_id_def collection_def catch_reply_eq is_envelope_def lookup_def
        message_body_def)
next
  case True
  with assms(2) obtain m fs where "faults w = Some m # fs"
    by (auto simp: store_answers_def split: list.splits option.splits)
  with assms(1) True show ?thesis
    by (simp add: get_service_by_id_def collection_def new_ObjectId_valid findOne_def
        store_call_fault catch_reply_eq is_envelope_def lookup_def message_body_def)
qed

lemma get_service_by_id_missing:
  assumes "ObjectId_isValid (params_id req)" and "store_answers w"
    and "\<not> (\<exists>d \<in> set (services w). eq_match d ''_id'' (id_filter req))"
  shows "fst (get_service_by_id req w) = Json 404 (message_body ''Service not found'')"
proof -
  from assms(3) have "find (\<lambda>d. eq_match d ''_id'' (id_filter req)) (services w) = None"
    by (simp add: find_None_iff)
  with assms(1,2) show ?thesis
    by (simp add: get_service_by_id_def store_answers_def collection_def new_ObjectId_valid
        findOne_def store_call_answers)
qed

lemma get_service_by_id_found:
  assumes "ObjectId_isValid (params_id req)" and "store_answers w"
    and "\<exists>d \<in> set (services w). eq_match d ''_id'' (id_filter req)"
  shows "\<exists>d \<in> set (services w). eq_match d ''_id'' (id_filter req) \<and>
           fst (get_service_by_id req w) =
             Json 200 (JObj [(''status'', JNum 200), (''result'', JObj d),
                             (''message'', lookup d ''message'')])"
proof -
  from assms(3) obtain d where d: "find (\<lambda>d. eq_match d ''_id'' (id_filter req)) (services w) = Some d"
    by (cases "find (\<lambda>d. eq_match d ''_id'' (id_filter req)) (services w)")
       (auto simp: find_None_iff)
  from find_Some_holds [OF d] have "d \<in> set (services w)" "eq_match d ''_id'' (id_filter req)"
    by simp_all
  moreover from assms(1,2) d
  have "fst (get_service_by_id req w) =
          Json 200 (JObj [(''status'', JNum 200), (''result'', JObj d),
                          (''message'', lookup d ''message'')])"
    by (simp add: get_service_by_id_def store_answers_def collection_def new_ObjectId_valid
        findOne_def store_call_answers try_reply_obj)
  ultimately show ?thesis by blast
qed

text \<open>
  C6. The lookup of a service by id: a malformed identifier is answered 400; a
  well-formed one is answered 500 when the store lookup faults (the store is not
  connected, or the call throws), 404 when the store answers and no service matches, and
  200 with a matching service, in the envelope, when there is one.
\<close>

theorem get_service_by_id_outcome:
  "(\<not> ObjectId_isValid (params_id req) \<longrightarrow>
      fst (get_service_by_id req w) = Json 400 (message_body ''Invalid service ID'')) \<and>
   (ObjectId_isValid (params_id req) \<and> \<not> store_answers w \<longrightarrow>
      (\<exists>v. fst (get_service_by_id req w) = Json 500 v \<and> is_envelope 500 v)) \<and>
   (ObjectId_isValid (params_id req) \<and> store_answers w \<and>
    \<not> (\<exists>d \<in> set (services w). eq_match d ''_id'' (id_filter req)) \<longrightarrow>
      fst (get_service_by_id req w) = Json 404 (message_body ''Service not found'')) \<and>
   (ObjectId_isValid (params_id req) \<and> store_answers w \<and>
    (\<exists>d \<in> set (services w). eq_match d ''_id'' (id_filter req)) \<longrightarrow>
      (\<exists>d \<in> set (services w). eq_match d ''_id'' (id_filter req) \<and>
         fst (get_service_by_id req w) =
           Json 200 (JObj [(''status'', JNum 200), (''result'', JObj d),
                           (''message'', lookup d ''message'')])))"
  using get_service_by_id_malformed [of req w] get_service_by_id_fault [of req w]
    get_service_by_id_missing [of req w] get_service_by_id_found [of req w]
  by auto

text \<open>
  The theorem at four requests: a malformed id, a known id while the store throws, an id
  nobody has, and the id of the stored service.
\<close>

theorem get_service_by_id_outcome_witness:
  "fst (get_service_by_id malformed_request shop_world) =
     Json 400 (JObj [(''message'', JStr ''Invalid service ID'')]) \<and>
   status_of (fst (get_service_by_id known_id_request faulty_world)) = Some 500 \<and>
   fst (get_service_by_id unknown_id_request shop_world) =
     Json 404 (JObj [(''message'', JStr ''Service not found'')]) \<and>
   fst (get_service_by_id known_id_request shop_world) =
     Json 200 (JObj [(''status'', JNum 200), (''result'', JObj service_doc),
                     (''message'', JUndefined)])"
proof -
  have faulty: "\<not> store_answers faulty_world"
    by (simp add: store_answers_def faulty_world_def)
  have no_message: "lookup service_doc ''message'' = JUndefined"
    by (simp add: lookup_def service_doc_def)
  from get_service_by_id_outcome [of malformed_request shop_world]
    get_service_by_id_outcome [of known_id_request faulty_world]
    get_service_by_id_outcome [of unknown_id_request shop_world]
    get_service_by_id_outcome [of known_id_request shop_world]
  show ?thesis
    using faulty no_message
    by (auto simp: known_id_valid unknown_id_valid malformed_id_invalid shop_world_answers
        known_id_filter unknown_id_filter shop_services service_doc_match service_doc_no_match
        message_body_def)
qed

section \<open>The response envelope (C3)\<close>

lemma list_handler_envelope:
  "fst (list_handler c req w) = Json s v \<Longrightarrow> is_envelope s v"
  by (auto simp: list_handler_def split: sum.splits prod.splits
      dest: catch_reply_envelope try_reply_envelope)

lemma delete_handler_envelope:
  "fst (delete_handler c req w) = Json s v \<Longrightarrow> is_envelope s v"
  by (auto simp: delete_handler_def split: sum.splits prod.splits
      dest: catch_reply_envelope try_reply_envelope)

lemma post_faqs_envelope:
  "fst (post_faqs req w) = Json s v \<Longrightarrow> is_envelope s v"
  by (auto simp: post_faqs_def split: sum.splits prod.splits
      dest: catch_reply_envelope try_reply_envelope)

lemma dashboard_stats_envelope:
  "fst (dashboard_stats req w) = Json s v \<Longrightarrow> is_envelope s v"
  by (auto simp: dashboard_stats_def split: sum.splits prod.splits
      dest: catch_reply_envelope try_reply_envelope)

lemma login_envelope:
  "fst (login req w) = Json s v \<Longrightarrow> is_envelope s v"
  by (auto simp: login_def Let_def split: sum.splits prod.splits if_splits
      dest: catch_reply_envelope try_reply_envelope)

lemma create_catch_envelope:
  "fst (create_catch req file err w) = Json s v \<Longrightarrow> is_envelope s v"
  by (auto simp: create_catch_def split: sum.splits prod.splits if_splits option.splits
      dest: catch_reply_envelope)

lemma insert_image_item_envelope:
  "fst (insert_image_item c req f w) = Json s v \<Longrightarrow> is_envelope s v"
  by (auto simp: insert_image_item_def split: sum.splits prod.splits
      dest: create_catch_envelope sendResponse_envelope)

lemma message_body_not_envelope: "\<not> is_envelope s (message_body m)"
  by (simp add: is_envelope_def message_body_def)

lemma get_service_by_id_classified:
  "(case validation_reply GetServiceById req w of
      Some (s, m) \<Rightarrow> fst (get_service_by_id req w) = Json s (message_body m)
    | None \<Rightarrow> (\<forall>s v. fst (get_service_by_id req w) = Json s v \<longrightarrow> is_envelope s v))"
proof (cases "ObjectId_isValid (params_id req)")
  case False
  then show ?thesis
    by (simp add: validation_reply_def get_service_by_id_malformed)
next
  case valid: True
  show ?thesis
  proof (cases "store_answers w")
    case False
    with valid get_service_by_id_fault [OF valid False] show ?thesis
      by (auto simp: validation_reply_def)
  next
    case answers: True
    show ?thesis
    proof (cases "\<exists>d \<in> set (services w). eq_match d ''_id'' (id_filter req)")
      case False
      with valid answers get_service_by_id_missing [OF valid answers False] show ?thesis
        by (simp add: validation_reply_def)
    next
      case True
      from get_service_by_id_found [OF valid answers True]
      obtain d where "fst (get_service_by_id req w) =
             Json 200 (JObj [(''status'', JNum 200), (''result'', JObj d),
                             (''message'', lookup d ''message'')])"
        by blast
      with valid answers True show ?thesis
        by (auto simp: validation_reply_def is_envelope_def lookup_def)
    qed
  qed
qed

lemma upload_then_create_classified:
  "(multipart req = NoImage \<longrightarrow>
      fst (upload_then_create c req w) = Json 400 (message_body ''Please upload an image'')) \<and>
   (multipart req \<noteq> NoImage \<longrightarrow>
      (\<forall>s v. fst (upload_then_create c req w) = Json s v \<longrightarrow> is_envelope s v))"
  by (auto simp: upload_then_create_def upload_single_def
      split: multipart.splits sum.splits if_splits dest: insert_image_item_envelope)

lemma post_banners_classified:
  "(case validation_reply PostBanners req w of
      Some (s, m) \<Rightarrow> fst (post_banners req w) = Json s (message_body m)
    | None \<Rightarrow> (\<forall>s v. fst (post_banners req w) = Json s v \<longrightarrow> is_envelope s v))"
  by (auto simp: validation_reply_def post_banners_def safeUpload_def upload_single_def
      split: multipart.splits sum.splits if_splits dest: insert_image_item_envelope)

lemma json_response_classified:
  "(case validation_reply r req w of
      Some (s, m) \<Rightarrow>
        fst (handle r req w) = Json s (message_body m) \<and>
        is_bare_message (message_body m) \<and> \<not> is_envelope s (message_body m)
    | None \<Rightarrow> (\<forall>s v. fst (handle r req w) = Json s v \<longrightarrow> is_envelope s v))"
proof (cases r)
  case PostServices
  with upload_then_create_classified [of req Services w] show ?thesis
    by (auto simp: validation_reply_def post_services_def bare_message_body
        message_body_not_envelope)
next
  case PostGalleries
  with upload_then_create_classified [of req Galleries w] show ?thesis
    by (auto simp: validation_reply_def post_galleries_def bare_message_body
        message_body_not_envelope)
next
  case PostBanners
  with post_banners_classified [of req w] show ?thesis
    by (auto simp: bare_message_body message_body_not_envelope split: option.splits)
next
  case GetServiceById
  with get_service_by_id_classified [of req w] show ?thesis
    by (auto simp: bare_message_body message_body_not_envelope split: option.splits)
qed (auto simp: validation_reply_def root_def
      dest: list_handler_envelope delete_handler_envelope post_faqs_envelope
      dashboard_stats_envelope login_envelope)

lemma catch_reply_json: "\<exists>s v. catch_reply c e = Json s v"
  by (simp add: catch_reply_eq)

lemma try_reply_json: "\<exists>s v. try_reply c d c' = Json s v"
  by (simp add: try_reply_def catch_reply_eq split: sum.splits)

lemma list_handler_json: "\<exists>s v. fst (list_handler c req w) = Json s v"
  by (simp add: list_handler_def catch_reply_json try_reply_json split: sum.splits prod.splits)

lemma delete_handler_json: "\<exists>s v. fst (delete_handler c req w) = Json s v"
  by (simp add: delete_handler_def catch_reply_json try_reply_json split: sum.splits prod.splits)

lemma post_faqs_json: "\<exists>s v. fst (post_faqs req w) = Json s v"
  by (simp add: post_faqs_def catch_reply_json try_reply_json split: sum.splits prod.splits)

lemma dashboard_stats_json: "\<exists>s v. fst (dashboard_stats req w) = Json s v"
  by (simp add: dashboard_stats_def catch_reply_json try_reply_json split: sum.splits prod.splits)

lemma login_json: "\<exists>s v. fst (login req w) = Json s v"
  by (simp add: login_def Let_def catch_reply_json try_reply_json split: sum.splits prod.splits)

lemma get_service_by_id_json: "\<exists>s v. fst (get_service_by_id req w) = Json s v"
  by (simp add: get_service_by_id_def catch_reply_json try_reply_json
      split: sum.splits prod.splits)

lemma create_catch_json:
  "destroy_fault req = None \<Longrightarrow> \<exists>s v. fst (create_catch req file err w) = Json s v"
  by (simp add: create_catch_def destroy_def catch_reply_json split: option.splits)

lemma insert_image_item_json:
  "destroy_fault req = None \<Longrightarrow> \<exists>s v. fst (insert_image_item c req f w) = Json s v"
  by (simp add: insert_image_item_def create_catch_json split: sum.splits prod.splits)

lemma post_banners_json:
  "destroy_fault req = None \<Longrightarrow> \<exists>s v. fst (post_banners req w) = Json s v"
  by (simp add: post_banners_def safeUpload_def insert_image_item_json
      split: sum.splits prod.splits option.splits js_error.splits)

lemma upload_then_create_json:
  "destroy_fault req = None \<Longrightarrow> fst (upload_single req w) = Inr file \<Longrightarrow>
   \<exists>s v. fst (upload_then_create c req w) = Json s v"
  by (auto simp: upload_then_create_def insert_image_item_json
      split: sum.splits prod.splits option.splits)

lemma handle_json:
  assumes "r \<noteq> Root" and "destroy_fault req = None"
    and "r = PostServices \<or> r = PostGalleries \<longrightarrow> (\<exists>file. fst (upload_single req w) = Inr file)"
  shows "\<exists>s v. fst (handle r req w) = Json s v"
  using assms
  by (cases r)
     (auto simp: post_services_def post_galleries_def
       intro: list_handler_json delete_handler_json post_faqs_json dashboard_stats_json
         login_json get_service_by_id_json post_banners_json upload_then_create_json)

text \<open>
  C3, as amended. Where one of the early checks fires, the answer is the bare
  \<^verbatim>\<open>{message}\<close> object of that check, which is not the envelope: the missing file
  on the three image routes (400), a multer error (400) and a failed upload (500) behind
  \<^verbatim>\<open>safeUpload\<close>, the invalid id (400) and the missing service (404) on the lookup of
  a service. In every other case, the catch blocks included, every JSON response of every
  route is the envelope \<^verbatim>\<open>{status, result, message}\<close>, whose status is the response's
  status and whose message is read from the result. And every route but the root does
  answer with JSON, unless multer hands an error to \<^verbatim>\<open>next\<close> on the services and
  galleries routes or the delete call of the compensation throws.
\<close>

theorem json_response_shape:
  "(case validation_reply r req w of
      Some (s, m) \<Rightarrow>
        fst (handle r req w) = Json s (message_body m) \<and>
        is_bare_message (message_body m) \<and> \<not> is_envelope s (message_body m)
    | None \<Rightarrow> (\<forall>s v. fst (handle r req w) = Json s v \<longrightarrow> is_envelope s v)) \<and>
   (r \<noteq> Root \<and> destroy_fault req = None \<and>
    (r = PostServices \<or> r = PostGalleries \<longrightarrow> (\<exists>file. fst (upload_single req w) = Inr file)) \<longrightarrow>
      (\<exists>s v. fst (handle r req w) = Json s v))"
  using json_response_classified [of r req w] handle_json [of r req w] by blast

text \<open>
  The theorem at four requests: the list of an empty collection and the lookup that meets
  a store fault are enveloped; the lookup of an unknown service and an oversized banner
  are answered with bare messages.
\<close>

theorem json_response_shape_witness:
  "fst (handle GetFaqs plain_request seeded_world) =
     Json 200 (JObj [(''status'', JNum 200), (''result'', JArr []), (''message'', JUndefined)]) \<and>
   is_envelope 200 (JObj [(''status'', JNum 200), (''result'', JArr []), (''message'', JUndefined)]) \<and>
   fst (handle GetServiceById known_id_request faulty_world) =
     Json 500 (JObj [(''status'', JNum 500),
       (''result'', JObj [(''message'', JStr ''connection closed'')]),
       (''message'', JStr ''connection closed'')]) \<and>
   is_envelope 500 (JObj [(''status'', JNum 500),
       (''result'', JObj [(''message'', JStr ''connection closed'')]),
       (''message'', JStr ''connection closed'')]) \<and>
   fst (handle GetServiceById unknown_id_request shop_world) =
     Json 404 (JObj [(''message'', JStr ''Service not found'')]) \<and>
   is_bare_message (JObj [(''message'', JStr ''Service not found'')]) \<and>
   fst (handle PostBanners oversized_request shop_world) =
     Json 400 (JObj [(''message'', JStr ''File too large. Maximum 5MB allowed.'')])"
proof -
  have faqs: "fst (handle GetFaqs plain_request seeded_world) =
      Json 200 (JObj [(''status'', JNum 200), (''result'', JArr []), (''message'', JUndefined)])"
    by (simp add: list_handler_def collection_def find_toArray_def store_call_def
        seeded_world_def empty_world_def try_reply_arr)
  have "validation_reply GetFaqs plain_request seeded_world = None"
    by (simp add: validation_reply_def)
  with json_response_shape [of GetFaqs plain_request seeded_world] faqs
  have faqs_env: "is_envelope 200
      (JObj [(''status'', JNum 200), (''result'', JArr []), (''message'', JUndefined)])"
    by simp
  have fault: "fst (handle GetServiceById known_id_request faulty_world) =
      Json 500 (JObj [(''status'', JNum 500),
        (''result'', JObj [(''message'', JStr ''connection closed'')]),
        (''message'', JStr ''connection closed'')])"
    by (simp add: get_service_by_id_def known_id_valid new_ObjectId_valid collection_def
        faulty_world_def shop_world_def seeded_world_def empty_world_def findOne_def
        store_call_def catch_reply_eq message_body_def)
  have "validation_reply GetServiceById known_id_request faulty_world = None"
    by (simp add: validation_reply_def known_id_valid store_answers_def faulty_world_def)
  with json_response_shape [of GetServiceById known_id_request faulty_world] fault
  have fault_env: "is_envelope 500 (JObj [(''status'', JNum 500),
        (''result'', JObj [(''message'', JStr ''connection closed'')]),
        (''message'', JStr ''connection closed'')])"
    by simp
  have "validation_reply GetServiceById unknown_id_request shop_world =
      Some (404, ''Service not found'')"
    by (simp add: validation_reply_def unknown_id_valid shop_world_answers unknown_id_filter
        shop_services service_doc_no_match)
  with json_response_shape [of GetServiceById unknown_id_request shop_world]
  have missing: "fst (handle GetServiceById unknown_id_request shop_world) =
      Json 404 (JObj [(''message'', JStr ''Service not found'')])"
    "is_bare_message (JObj [(''message'', JStr ''Service not found'')])"
    by (simp_all add: message_body_def)
  have "validation_reply PostBanners oversized_request shop_world =
      Some (400, ''File too large. Maximum 5MB allowed.'')"
    by (simp add: validation_reply_def oversized_request_def plain_request_def fileSize_limit_def)
  with json_response_shape [of PostBanners oversized_request shop_world]
  have large: "fst (handle PostBanners oversized_request shop_world) =
      Json 400 (JObj [(''message'', JStr ''File too large. Maximum 5MB allowed.'')])"
    by (simp add: message_body_def)
  from faqs faqs_env fault fault_env missing large show ?thesis by blast
qed

text \<open>
  C3 as stated fails: the answer to a malformed service id is a JSON body that is not
  the envelope.
\<close>

theorem invalid_service_id_not_enveloped:
  "fst (handle GetServiceById malformed_request seeded_world) =
     Json 400 (JObj [(''message'', JStr ''Invalid service ID'')]) \<and>
   \<not> is_envelope 400 (JObj [(''message'', JStr ''Invalid service ID'')])"
  by (simp add: get_service_by_id_def malformed_request_def plain_request_def
      ObjectId_isValid_def message_body_def is_envelope_def)

section \<open>Compensation after a failed insert (C7)\<close>

lemma get_coll_media [simp]: "get_coll c (w\<lparr>media := ms\<rparr>) = get_coll c w"
  by (cases c) simp_all

lemma get_coll_next_oid [simp]: "get_coll c (w\<lparr>next_oid := n\<rparr>) = get_coll c w"
  by (cases c) simp_all

lemma upload_stored:
  "multipart req = Image p \<Longrightarrow> bytes p \<le> fileSize_limit \<Longrightarrow> upload_reply p = Inr f \<Longrightarrow>
   upload_single req w = (Inr (Some f), w\<lparr>media := media w @ [filename f]\<rparr>)"
  by (simp add: upload_single_def)

lemma insertOne_fault:
  "faults w = Some m # fs \<Longrightarrow>
   fst (insertOne h d w) = Inl (MongoError m) \<and>
   media (snd (insertOne h d w)) = media w \<and>
   services (snd (insertOne h d w)) = services w \<and>
   banners (snd (insertOne h d w)) = banners w \<and>
   galleries (snd (insertOne h d w)) = galleries w"
  by (cases h) (simp add: insertOne_def Let_def store_call_def)

lemma insert_image_item_fault:
  assumes "db_ready w" and "faults w = Some m # fs" and "filename f \<noteq> []"
    and "destroy_fault req = None"
  shows "fst (insert_image_item c req f w) =
           Json 400 (JObj [(''status'', JNum 400), (''result'', JObj [(''message'', JStr m)]),
                           (''message'', JStr m)]) \<and>
         media (snd (insert_image_item c req f w)) = removeAll (filename f) (media w) \<and>
         services (snd (insert_image_item c req f w)) = services w \<and>
         banners (snd (insert_image_item c req f w)) = banners w \<and>
         galleries (snd (insert_image_item c req f w)) = galleries w"
proof -
  obtain w' where ins: "insertOne (Coll c) (image_item req f) w = (Inl (MongoError m), w')"
    and w': "media w' = media w" "services w' = services w" "banners w' = banners w"
      "galleries w' = galleries w"
    using insertOne_fault [OF assms(2), of "Coll c" "image_item req f"]
    by (cases "insertOne (Coll c) (image_item req f) w") auto
  from assms(1,3,4) ins w' show ?thesis
    by (simp add: insert_image_item_def collection_def create_catch_def destroy_def
        catch_reply_eq message_body_def)
qed

text \<open>
  While the media host carries out the delete call, the catch block does what the
  specification says: the stored file is removed and the error is answered with 400.
\<close>

lemma insert_fault_compensated:
  assumes "r \<in> {PostServices, PostBanners, PostGalleries}"
    and "multipart req = Image p" and "bytes p \<le> fileSize_limit"
    and "upload_reply p = Inr f" and "filename f \<noteq> []"
    and "db_ready w" and "faults w = Some m # fs"
    and "destroy_fault req = None"
  shows "fst (handle r req w) =
           Json 400 (JObj [(''status'', JNum 400), (''result'', JObj [(''message'', JStr m)]),
                           (''message'', JStr m)]) \<and>
         filename f \<notin> set (media (snd (handle r req w))) \<and>
         services (snd (handle r req w)) = services w \<and>
         banners (snd (handle r req w)) = banners w \<and>
         galleries (snd (handle r req w)) = galleries w"
proof -
  let ?w = "w\<lparr>media := media w @ [filename f]\<rparr>"
  have up: "upload_single req w = (Inr (Some f), ?w)"
    using assms(2-4) by (rule upload_stored)
  have "db_ready ?w" "faults ?w = Some m # fs" using assms(6,7) by simp_all
  from insert_image_item_fault [OF this assms(5,8)]
  have item: "\<And>c. fst (insert_image_item c req f ?w) =
           Json 400 (JObj [(''status'', JNum 400), (''result'', JObj [(''message'', JStr m)]),
                           (''message'', JStr m)]) \<and>
         filename f \<notin> set (media (snd (insert_image_item c req f ?w))) \<and>
         services (snd (insert_image_item c req f ?w)) = services w \<and>
         banners (snd (insert_image_item c req f ?w)) = banners w \<and>
         galleries (snd (insert_image_item c req f ?w)) = galleries w"
    by simp
  from assms(1) consider "r = PostServices" | "r = PostBanners" | "r = PostGalleries" by auto
  then show ?thesis
  proof cases
    case 1
    with up item [of Services] show ?thesis
      by (simp add: post_services_def upload_then_create_def)
  next
    case 2
    with up item [of Banners] show ?thesis
      by (simp add: post_banners_def safeUpload_def)
  next
    case 3
    with up item [of Galleries] show ?thesis
      by (simp add: post_galleries_def upload_then_create_def)
  qed
qed

lemma insert_image_item_destroy_rejected:
  assumes "db_ready w" and "faults w = Some m # fs" and "filename f \<noteq> []"
    and "destroy_fault req = Some e"
  shows "fst (insert_image_item c req f w) = Rejected (Error e) \<and>
         media (snd (insert_image_item c req f w)) = media w"
proof -
  obtain w' where ins: "insertOne (Coll c) (image_item req f) w = (Inl (MongoError m), w')"
    and w': "media w' = media w"
    using insertOne_fault [OF assms(2), of "Coll c" "image_item req f"]
    by (cases "insertOne (Coll c) (image_item req f) w") auto
  from assms(1,3,4) ins w' show ?thesis
    by (simp add: insert_image_item_def collection_def create_catch_def destroy_def)
qed

text \<open>
  When the delete call throws, on any of the three routes: the call is awaited inside the
  catch block, so the handler ends there, writes no response, and the file stays.
\<close>

lemma failed_destroy_rejects:
  assumes "r \<in> {PostServices, PostBanners, PostGalleries}"
    and "multipart req = Image p" and "bytes p \<le> fileSize_limit"
    and "upload_reply p = Inr f" and "filename f \<noteq> []"
    and "db_ready w" and "faults w = Some m # fs"
    and "destroy_fault req = Some e"
  shows "fst (handle r req w) = Rejected (Error e) \<and>
         status_of (fst (handle r req w)) = None \<and>
         filename f \<in> set (media (snd (handle r req w)))"
proof -
  let ?w = "w\<lparr>media := media w @ [filename f]\<rparr>"
  have up: "upload_single req w = (Inr (Some f), ?w)"
    using assms(2-4) by (rule upload_stored)
  have "db_ready ?w" "faults ?w = Some m # fs" using assms(6,7) by simp_all
  from insert_image_item_destroy_rejected [OF this assms(5,8)]
  have item: "\<And>c. fst (insert_image_item c req f ?w) = Rejected (Error e) \<and>
      filename f \<in> set (media (snd (insert_image_item c req f ?w)))"
    by simp
  from assms(1) consider "r = PostServices" | "r = PostBanners" | "r = PostGalleries" by auto
  then show ?thesis
  proof cases
    case 1
    with up item [of Services] show ?thesis
      by (simp add: post_services_def upload_then_create_def)
  next
    case 2
    with up item [of Banners] show ?thesis
      by (simp add: post_banners_def safeUpload_def)
  next
    case 3
    with up item [of Galleries] show ?thesis
      by (simp add: post_galleries_def upload_then_create_def)
  qed
qed

text \<open>
  C7. The claim: whenever the upload succeeded and the insert fails, the handler deletes
  the uploaded file and then responds 400 with the error message. The code at a banner
  whose insert meets a closed connection while the media host refuses the delete call:
  the handler's promise rejects, no response is written, and the file is still at the
  media host.
\<close>

theorem failed_destroy_no_response:
  "fst (handle PostBanners unrepairable_request faulty_world) =
     Rejected (Error ''media host unreachable'') \<and>
   status_of (fst (handle PostBanners unrepairable_request faulty_world)) = None \<and>
   media (snd (handle PostBanners unrepairable_request faulty_world)) = [''anando-computer/a'']"
  by (simp add: post_banners_def safeUpload_def upload_single_def unrepairable_request_def
      stored_request_def plain_request_def fileSize_limit_def example_file_def
      insert_image_item_def collection_def faulty_world_def shop_world_def seeded_world_def
      empty_world_def insertOne_def Let_def store_call_def create_catch_def destroy_def)

section \<open>Server-assigned fields (C10)\<close>

lemma lookup_update_same: "lookup (AList.update k v d) k = v"
  by (simp add: lookup_def update_conv')

lemma lookup_update_other: "k' \<noteq> k \<Longrightarrow> lookup (AList.update k v d) k' = lookup d k'"
  by (simp add: lookup_def update_conv')

lemma lookup_stored: "k \<noteq> ''_id'' \<Longrightarrow> lookup ((''_id'', oid) # AList.delete ''_id'' d) k = lookup d k"
  by (simp add: lookup_def delete_conv')

lemma image_item_fields:
  "lookup (image_item req f) ''image'' = JStr (path f) \<and>
   lookup (image_item req f) ''createdAt'' = JDate (now req)"
  by (simp add: image_item_def lookup_update_same lookup_update_other)

lemma plain_item_fields: "lookup (plain_item req) ''createdAt'' = JDate (now req)"
  by (simp add: plain_item_def lookup_update_same)

lemma insertOne_stored:
  assumes "insertOne (Coll c) d w = (Inr result, w')"
  shows "\<exists>d'. get_coll c w' = get_coll c w @ [d'] \<and>
              lookup d' ''image'' = lookup d ''image'' \<and>
              lookup d' ''createdAt'' = lookup d ''createdAt''"
  using assms
  by (auto simp: insertOne_def Let_def store_call_def lookup_stored
      split: list.splits option.splits if_splits)

lemma insert_image_item_created:
  assumes "insert_image_item c req f w = (Json 201 v, w')"
  shows "\<exists>d. get_coll c w' = get_coll c w @ [d] \<and>
             lookup d ''image'' = JStr (path f) \<and>
             lookup d ''createdAt'' = JDate (now req)"
proof (cases "collection w c")
  case (Inl e)
  with assms show ?thesis
    by (auto simp: insert_image_item_def create_catch_def catch_reply_eq destroy_def
        split: if_splits option.splits)
next
  case (Inr h)
  then have h: "h = Coll c" by (auto simp: collection_def split: if_splits)
  obtain res w1 where ins: "insertOne (Coll c) (image_item req f) w = (res, w1)"
    by (cases "insertOne (Coll c) (image_item req f) w")
  show ?thesis
  proof (cases res)
    case (Inl e)
    with assms Inr h ins show ?thesis
      by (auto simp: insert_image_item_def create_catch_def catch_reply_eq destroy_def
          split: if_splits option.splits)
  next
    case res: (Inr result)
    from assms Inr h ins res have "w' = w1"
      by (auto simp: insert_image_item_def create_catch_def catch_reply_eq destroy_def
          split: if_splits option.splits sum.splits)
    with insertOne_stored [of c "image_item req f" w result w1] ins res image_item_fields [of req f]
    show ?thesis by auto
  qed
qed

lemma upload_then_create_created:
  assumes "upload_then_create c req w = (Json 201 v, w')"
  shows "\<exists>d p f. multipart req = Image p \<and> upload_reply p = Inr f \<and>
             get_coll c w' = get_coll c w @ [d] \<and>
             lookup d ''image'' = JStr (path f) \<and>
             lookup d ''createdAt'' = JDate (now req)"
proof -
  from assms obtain p f where up: "multipart req = Image p" "upload_reply p = Inr f"
    and item: "insert_image_item c req f (w\<lparr>media := media w @ [filename f]\<rparr>) = (Json 201 v, w')"
    by (auto simp: upload_then_create_def upload_single_def message_body_def
        split: multipart.splits if_splits sum.splits)
  from insert_image_item_created [OF item] up show ?thesis by auto
qed

lemma post_banners_created:
  assumes "post_banners req w = (Json 201 v, w')"
  shows "\<exists>d p f. multipart req = Image p \<and> upload_reply p = Inr f \<and>
             banners w' = banners w @ [d] \<and>
             lookup d ''image'' = JStr (path f) \<and>
             lookup d ''createdAt'' = JDate (now req)"
proof -
  from assms obtain p f where up: "multipart req = Image p" "upload_reply p = Inr f"
    and item: "insert_image_item Banners req f (w\<lparr>media := media w @ [filename f]\<rparr>) = (Json 201 v, w')"
    by (auto simp: post_banners_def safeUpload_def upload_single_def message_body_def
        split: multipart.splits if_splits sum.splits)
  from insert_image_item_created [OF item] up show ?thesis by auto
qed

lemma post_faqs_created:
  assumes "post_faqs req w = (Json 201 v, w')"
  shows "\<exists>d. faqs w' = faqs w @ [d] \<and> lookup d ''createdAt'' = JDate (now req)"
proof -
  from assms obtain result where ins: "insertOne (Coll Faqs) (plain_item req) w = (Inr result, w')"
    by (auto simp: post_faqs_def collection_def catch_reply_eq
        split: if_splits sum.splits prod.splits)
  from insertOne_stored [OF ins] plain_item_fields [of req] show ?thesis by auto
qed

lemma insertOne_answers:
  assumes "store_answers w"
  shows "\<exists>oid w'. insertOne (Coll c) d w =
           (Inr (JObj [(''acknowledged'', JBool True), (''insertedId'', oid)]), w')"
proof -
  from assms have "\<And>n. store_answers (w\<lparr>next_oid := n\<rparr>)"
    by (simp add: store_answers_def)
  from store_call_answers [OF this] store_call_answers [OF assms] show ?thesis
    by (simp add: insertOne_def Let_def)
qed

lemma insert_image_item_answers:
  assumes "store_answers w"
  shows "\<exists>v w'. insert_image_item c req f w = (Json 201 v, w')"
proof -
  from insertOne_answers [OF assms, of c "image_item req f"]
  obtain oid w' where "insertOne (Coll c) (image_item req f) w =
      (Inr (JObj [(''acknowledged'', JBool True), (''insertedId'', oid)]), w')"
    by blast
  with assms show ?thesis
    by (simp add: insert_image_item_def collection_def store_answers_def sendResponse_obj)
qed

lemma upload_then_create_answers:
  assumes "multipart req = Image p" and "bytes p \<le> fileSize_limit"
    and "upload_reply p = Inr f" and "store_answers w"
  shows "\<exists>v w'. upload_then_create c req w = (Json 201 v, w')"
proof -
  from assms(4) have "store_answers (w\<lparr>media := media w @ [filename f]\<rparr>)"
    by (simp add: store_answers_def)
  from insert_image_item_answers [OF this, of c req f] upload_stored [OF assms(1-3), of w]
  show ?thesis by (simp add: upload_then_create_def)
qed

lemma post_banners_answers:
  assumes "multipart req = Image p" and "bytes p \<le> fileSize_limit"
    and "upload_reply p = Inr f" and "store_answers w"
  shows "\<exists>v w'. post_banners req w = (Json 201 v, w')"
proof -
  from assms(4) have "store_answers (w\<lparr>media := media w @ [filename f]\<rparr>)"
    by (simp add: store_answers_def)
  from insert_image_item_answers [OF this, of Banners req f] upload_stored [OF assms(1-3), of w]
  show ?thesis by (simp add: post_banners_def safeUpload_def)
qed

lemma post_faqs_answers:
  assumes "store_answers w"
  shows "\<exists>v w'. post_faqs req w = (Json 201 v, w')"
proof -
  from insertOne_answers [OF assms, of Faqs "plain_item req"]
  obtain oid w' where "insertOne (Coll Faqs) (plain_item req) w =
      (Inr (JObj [(''acknowledged'', JBool True), (''insertedId'', oid)]), w')"
    by blast
  with assms show ?thesis
    by (simp add: post_faqs_def collection_def store_answers_def try_reply_obj)
qed

lemma post_services_stores:
  assumes "multipart req = Image p" and "bytes p \<le> fileSize_limit"
    and "upload_reply p = Inr f" and "store_answers w"
  shows "status_of (fst (post_services req w)) = Some 201 \<and>
         (\<exists>d. services (snd (post_services req w)) = services w @ [d] \<and>
              lookup d ''image'' = JStr (path f) \<and> lookup d ''createdAt'' = JDate (now req))"
proof -
  from upload_then_create_answers [OF assms, of Services]
  obtain v w' where out: "upload_then_create Services req w = (Json 201 v, w')" by blast
  from upload_then_create_created [OF out] assms(1,3) out show ?thesis
    by (auto simp: post_services_def)
qed

lemma post_galleries_stores:
  assumes "multipart req = Image p" and "bytes p \<le> fileSize_limit"
    and "upload_reply p = Inr f" and "store_answers w"
  shows "status_of (fst (post_galleries req w)) = Some 201 \<and>
         (\<exists>d. galleries (snd (post_galleries req w)) = galleries w @ [d] \<and>
              lookup d ''image'' = JStr (path f) \<and> lookup d ''createdAt'' = JDate (now req))"
proof -
  from upload_then_create_answers [OF assms, of Galleries]
  obtain v w' where out: "upload_then_create Galleries req w = (Json 201 v, w')" by blast
  from upload_then_create_created [OF out] assms(1,3) out show ?thesis
    by (auto simp: post_galleries_def)
qed

lemma post_banners_stores:
  assumes "multipart req = Image p" and "bytes p \<le> fileSize_limit"
    and "upload_reply p = Inr f" and "store_answers w"
  shows "status_of (fst (post_banners req w)) = Some 201 \<and>
         (\<exists>d. banners (snd (post_banners req w)) = banners w @ [d] \<and>
              lookup d ''image'' = JStr (path f) \<and> lookup d ''createdAt'' = JDate (now req))"
proof -
  from post_banners_answers [OF assms]
  obtain v w' where out: "post_banners req w = (Json 201 v, w')" by blast
  from post_banners_created [OF out] assms(1,3) out show ?thesis
    by auto
qed

lemma post_faqs_stores:
  assumes "store_answers w"
  shows "status_of (fst (post_faqs req w)) = Some 201 \<and>
         (\<exists>d. faqs (snd (post_faqs req w)) = faqs w @ [d] \<and>
              lookup d ''createdAt'' = JDate (now req))"
proof -
  from post_faqs_answers [OF assms]
  obtain v w' where out: "post_faqs req w = (Json 201 v, w')" by blast
  from post_faqs_created [OF out] out show ?thesis
    by auto
qed

text \<open>
  C10. On each of the four create routes a request that gets through (on the image
  routes: a file within the limit that the media host stored; the store connected and
  answering) is answered 201 and appends exactly one document to its collection, whose
  \<^verbatim>\<open>createdAt\<close> is the server's clock at the request and, on the image routes, whose
  \<^verbatim>\<open>image\<close> is the URL of the stored file, whatever fields the body carried,
  \<^verbatim>\<open>createdAt\<close> and \<^verbatim>\<open>image\<close> included. Conversely, whenever a create request
  is answered 201, one such document was appended.
\<close>

theorem created_fields_server_assigned:
  "(multipart req = Image p \<and> bytes p \<le> fileSize_limit \<and> upload_reply p = Inr f \<and>
    store_answers w \<longrightarrow>
      status_of (fst (post_services req w)) = Some 201 \<and>
      (\<exists>d. services (snd (post_services req w)) = services w @ [d] \<and>
           lookup d ''image'' = JStr (path f) \<and> lookup d ''createdAt'' = JDate (now req)) \<and>
      status_of (fst (post_banners req w)) = Some 201 \<and>
      (\<exists>d. banners (snd (post_banners req w)) = banners w @ [d] \<and>
           lookup d ''image'' = JStr (path f) \<and> lookup d ''createdAt'' = JDate (now req)) \<and>
      status_of (fst (post_galleries req w)) = Some 201 \<and>
      (\<exists>d. galleries (snd (post_galleries req w)) = galleries w @ [d] \<and>
           lookup d ''image'' = JStr (path f) \<and> lookup d ''createdAt'' = JDate (now req))) \<and>
   (store_answers w \<longrightarrow>
      status_of (fst (post_faqs req w)) = Some 201 \<and>
      (\<exists>d. faqs (snd (post_faqs req w)) = faqs w @ [d] \<and>
           lookup d ''createdAt'' = JDate (now req))) \<and>
   (post_services req w = (Json 201 v, w') \<longrightarrow>
      (\<exists>d p f. multipart req = Image p \<and> upload_reply p = Inr f \<and>
         services w' = services w @ [d] \<and>
         lookup d ''image'' = JStr (path f) \<and> lookup d ''createdAt'' = JDate (now req))) \<and>
   (post_banners req w = (Json 201 v, w') \<longrightarrow>
      (\<exists>d p f. multipart req = Image p \<and> upload_reply p = Inr f \<and>
         banners w' = banners w @ [d] \<and>
         lookup d ''image'' = JStr (path f) \<and> lookup d ''createdAt'' = JDate (now req))) \<and>
   (post_galleries req w = (Json 201 v, w') \<longrightarrow>
      (\<exists>d p f. multipart req = Image p \<and> upload_reply p = Inr f \<and>
         galleries w' = galleries w @ [d] \<and>
         lookup d ''image'' = JStr (path f) \<and> lookup d ''createdAt'' = JDate (now req))) \<and>
   (post_faqs req w = (Json 201 v, w') \<longrightarrow>
      (\<exists>d. faqs w' = faqs w @ [d] \<and> lookup d ''createdAt'' = JDate (now req)))"
  using post_services_stores [of req p f w] post_banners_stores [of req p f w]
    post_galleries_stores [of req p f w] post_faqs_stores [of w req]
    upload_then_create_created [of Services req w v w']
    upload_then_create_created [of Galleries req w v w']
    post_banners_created [of req w v w'] post_faqs_created [of req w v w']
  by (simp add: post_services_def post_galleries_def)

text \<open>
  The theorem on all four routes, at a request whose body submits \<^verbatim>\<open>image\<close> and
  \<^verbatim>\<open>createdAt\<close> of its own.
\<close>

theorem created_fields_server_assigned_witness:
  "status_of (fst (post_services stored_request shop_world)) = Some 201 \<and>
   (\<exists>d. services (snd (post_services stored_request shop_world)) = [service_doc, d] \<and>
        lookup d ''image'' = JStr ''https://res.cloudinary.com/demo/image/upload/anando-computer/a.png'' \<and>
        lookup d ''createdAt'' = JDate 1700000000000) \<and>
   status_of (fst (post_banners stored_request shop_world)) = Some 201 \<and>
   (\<exists>d. banners (snd (post_banners stored_request shop_world)) = [d] \<and>
        lookup d ''image'' = JStr ''https://res.cloudinary.com/demo/image/upload/anando-computer/a.png'' \<and>
        lookup d ''createdAt'' = JDate 1700000000000) \<and>
   status_of (fst (post_galleries stored_request shop_world)) = Some 201 \<and>
   (\<exists>d. galleries (snd (post_galleries stored_request shop_world)) = [d] \<and>
        lookup d ''image'' = JStr ''https://res.cloudinary.com/demo/image/upload/anando-computer/a.png'' \<and>
        lookup d ''createdAt'' = JDate 1700000000000) \<and>
   status_of (fst (post_faqs stored_request shop_world)) = Some 201 \<and>
   (\<exists>d. faqs (snd (post_faqs stored_request shop_world)) = [d] \<and>
        lookup d ''createdAt'' = JDate 1700000000000)"
proof -
  have part: "multipart stored_request = Image \<lparr>bytes = 1024, upload_reply = Inr example_file\<rparr>"
    by (simp add: stored_request_def plain_request_def)
  have small: "bytes \<lparr>bytes = 1024, upload_reply = Inr example_file\<rparr> \<le> fileSize_limit"
    by (simp add: fileSize_limit_def)
  have world: "services shop_world = [service_doc]" "banners shop_world = []"
    "galleries shop_world = []" "faqs shop_world = []"
    by (simp_all add: shop_world_def seeded_world_def empty_world_def)
  have req: "now stored_request = 1700000000000"
    "path example_file = ''https://res.cloudinary.com/demo/image/upload/anando-computer/a.png''"
    by (simp_all add: stored_request_def plain_request_def example_file_def)
  from created_fields_server_assigned
    [of stored_request "\<lparr>bytes = 1024, upload_reply = Inr example_file\<rparr>" example_file
        shop_world]
    part small shop_world_answers
  show ?thesis by (simp add: world req)
qed

section \<open>Unhandled rejections and uncaught exceptions (C8)\<close>

lemma listeners_booted:
  "listeners_of UnhandledRejection (booted n) =
     ModuleUnhandledRejection # replicate (Suc n) StartUnhandledRejection \<and>
   listeners_of UncaughtException (booted n) = replicate (Suc n) StartUncaughtException \<and>
   console (booted n) = [] \<and> exit_code (booted n) = None"
  by (induction n)
     (simp_all add: listeners_of_def startServer_def process_on_def replicate_append_same)

lemma run_listeners_exited: "exit_code p \<noteq> None \<Longrightarrow> run_listeners ls p = (None, p)"
  by (cases ls) simp_all

lemma uncaught_exits:
  assumes "listeners_of UncaughtException p = replicate (Suc n) StartUncaughtException"
    and "exit_code p = None"
  shows "uncaught p = p\<lparr>console := console p @ [''Uncaught Exception:''], exit_code := Some 1\<rparr>"
  using assms
  by (simp add: uncaught_def process_exit_def console_error_def run_listeners_exited)

text \<open>
  C8, as amended. However often \<^verbatim>\<open>startServer\<close> had to retry, an unhandled rejection
  ends the process with exit code 1: the listener registered at module level runs first,
  logs the rejection and does not return normally, so the log-only listener never runs and
  the process is taken down through the \<^verbatim>\<open>uncaughtException\<close> listener. An uncaught
  exception is logged and ends the process with exit code 1 at once.
\<close>

theorem error_events_exit:
  "exit_code (emit UnhandledRejection (booted retries)) = Some 1 \<and>
   console (emit UnhandledRejection (booted retries)) =
     [''Unhandled Promise Rejection:'', ''Uncaught Exception:''] \<and>
   exit_code (emit UncaughtException (booted retries)) = Some 1 \<and>
   console (emit UncaughtException (booted retries)) = [''Uncaught Exception:'']"
proof -
  let ?p = "booted retries"
  let ?q = "console_error ''Unhandled Promise Rejection:'' ?p"
  have q: "listeners_of UncaughtException ?q = replicate (Suc retries) StartUncaughtException"
    "exit_code ?q = None" "console ?q = [''Unhandled Promise Rejection:'']"
    using listeners_booted [of retries] by (simp_all add: console_error_def listeners_of_def)
  have "emit UnhandledRejection ?p = uncaught ?q"
    using listeners_booted [of retries] by simp
  with uncaught_exits [OF q(1,2)] q(3)
  have rej: "exit_code (emit UnhandledRejection ?p) = Some 1"
    "console (emit UnhandledRejection ?p) = [''Unhandled Promise Rejection:'', ''Uncaught Exception:'']"
    by simp_all
  from listeners_booted [of retries]
  have "uncaught ?p = ?p\<lparr>console := console ?p @ [''Uncaught Exception:''], exit_code := Some 1\<rparr>"
    by (intro uncaught_exits) simp_all
  with listeners_booted [of retries]
  have exc: "exit_code (emit UncaughtException ?p) = Some 1"
    "console (emit UncaughtException ?p) = [''Uncaught Exception:'']"
    by simp_all
  from rej exc show ?thesis by simp
qed

text \<open>The theorem after two port retries.\<close>

theorem error_events_exit_witness:
  "exit_code (emit UnhandledRejection (booted 2)) = Some 1 \<and>
   exit_code (emit UncaughtException (booted 2)) = Some 1"
  using error_events_exit [of 2] by simp

text \<open>
  C8 as stated fails: after a start without retries, an unhandled rejection leaves the
  process exited with code 1.
\<close>

theorem unhandled_rejection_exits:
  "exit_code (emit UnhandledRejection (booted 0)) = Some 1"
  by (simp add: startServer_def process_on_def listeners_of_def uncaught_def process_exit_def
      console_error_def)

section \<open>The admin seed (C9)\<close>

lemma store_call_no_faults:
  "no_faults w \<Longrightarrow>
   store_call c w = (None, w\<lparr>faults := tl (faults w), db_log := db_log w @ [c]\<rparr>)"
  by (cases "faults w") (simp_all add: no_faults_def store_call_def)

lemma no_faults_tl: "no_faults w \<Longrightarrow> list_all (\<lambda>f. f = None) (tl (faults w))"
  by (cases "faults w") (simp_all add: no_faults_def)

lemma find_filter_None: "find P xs = None \<longleftrightarrow> filter P xs = []"
  by (induction xs) auto

lemma seeded_doc_is_admin:
  "is_admin ((''_id'', oid) # AList.delete ''_id'' [(''email'', admin_email), (''password'', JStr ''admin'')])"
  by (simp add: is_admin_def eq_match_def admin_email_def)

lemma seedAdmin_present:
  assumes "db_ready w" and "no_faults w" and "filter is_admin (users w) \<noteq> []"
  shows "users (seedAdmin w) = users w \<and> db_ready (seedAdmin w) \<and> no_faults (seedAdmin w)"
proof -
  from assms(3) obtain d where "find is_admin (users w) = Some d"
    by (cases "find is_admin (users w)") (simp_all add: find_filter_None)
  then have "find (\<lambda>d. eq_match d ''email'' admin_email) (users w) = Some d"
    by (simp add: is_admin_def [abs_def])
  with assms(1,2) no_faults_tl [OF assms(2)] show ?thesis
    by (simp add: seedAdmin_def collection_def findOne_def store_call_no_faults no_faults_def)
qed

lemma seedAdmin_absent:
  assumes "db_ready w" and "no_faults w" and "filter is_admin (users w) = []"
  shows "filter is_admin (users (seedAdmin w)) =
           [(''_id'', fresh_oid (next_oid w)) #
            [(''email'', admin_email), (''password'', JStr ''admin'')]] \<and>
         db_ready (seedAdmin w) \<and> no_faults (seedAdmin w)"
proof -
  from assms(3) have none: "find (\<lambda>d. eq_match d ''email'' admin_email) (users w) = None"
    by (simp add: find_filter_None is_admin_def [abs_def])
  let ?w1 = "w\<lparr>faults := tl (faults w),
                db_log := db_log w @ [FindOne Users ''email'' admin_email]\<rparr>"
  have w1: "db_ready ?w1" "no_faults ?w1" "users ?w1 = users w"
    using assms(1) no_faults_tl [OF assms(2)] by (simp_all add: no_faults_def)
  have found: "findOne (Coll Users) ''email'' admin_email w = (Inr JNull, ?w1)"
    using none by (simp add: findOne_def store_call_no_faults [OF assms(2)])
  let ?d = "(''_id'', fresh_oid (next_oid w)) # [(''email'', admin_email), (''password'', JStr ''admin'')]"
  have ins: "users (snd (insertOne (Coll Users) [(''email'', admin_email), (''password'', JStr ''admin'')] ?w1))
               = users w @ [?d] \<and>
             db_ready (snd (insertOne (Coll Users) [(''email'', admin_email), (''password'', JStr ''admin'')] ?w1)) \<and>
             no_faults (snd (insertOne (Coll Users) [(''email'', admin_email), (''password'', JStr ''admin'')] ?w1))"
  proof -
    have "no_faults (?w1\<lparr>next_oid := Suc (next_oid ?w1)\<rparr>)"
      using w1(2) by (simp add: no_faults_def)
    from store_call_no_faults [OF this] no_faults_tl [OF this] assms(1) show ?thesis
      by (simp add: insertOne_def Let_def lookup_def no_faults_def)
  qed
  have admin: "is_admin ?d"
    using seeded_doc_is_admin [of "fresh_oid (next_oid w)"] by simp
  from assms(1) found ins have
    "users (seedAdmin w) = users w @ [?d] \<and> db_ready (seedAdmin w) \<and> no_faults (seedAdmin w)"
    by (simp add: seedAdmin_def collection_def)
  with assms(3) admin show ?thesis by simp
qed

text \<open>
  C9, as amended. From every store state with at most one user document that has the
  admin email, with the store connected and answering, running the seed twice leaves
  exactly one such document, and the second run leaves the users as the first run left
  them.
\<close>

theorem seedAdmin_idempotent:
  assumes "db_ready w" and "no_faults w" and "length (filter is_admin (users w)) \<le> 1"
  shows "length (filter is_admin (users (seedAdmin (seedAdmin w)))) = 1 \<and>
         users (seedAdmin (seedAdmin w)) = users (seedAdmin w)"
proof (cases "filter is_admin (users w) = []")
  case True
  from seedAdmin_absent [OF assms(1,2) True]
  have once: "length (filter is_admin (users (seedAdmin w))) = 1"
    "db_ready (seedAdmin w)" "no_faults (seedAdmin w)"
    by simp_all
  then have "filter is_admin (users (seedAdmin w)) \<noteq> []" by auto
  from seedAdmin_present [OF once(2,3) this] once(1) show ?thesis by simp
next
  case False
  from seedAdmin_present [OF assms(1,2) False]
  have once: "users (seedAdmin w) = users w" "db_ready (seedAdmin w)" "no_faults (seedAdmin w)"
    by simp_all
  with False have "filter is_admin (users (seedAdmin w)) \<noteq> []" by simp
  from seedAdmin_present [OF once(2,3) this] once(1)
  have "users (seedAdmin (seedAdmin w)) = users w" by simp
  moreover from False assms(3) have "length (filter is_admin (users w)) = 1"
    by (cases "filter is_admin (users w)") simp_all
  ultimately show ?thesis using once(1) by simp
qed

text \<open>The theorem from an empty store and from a store that holds the admin.\<close>

theorem seedAdmin_idempotent_witness:
  "length (filter is_admin (users (seedAdmin (seedAdmin empty_world)))) = 1 \<and>
   users (seedAdmin (seedAdmin empty_world)) = users (seedAdmin empty_world) \<and>
   length (filter is_admin (users (seedAdmin (seedAdmin shop_world)))) = 1 \<and>
   users (seedAdmin (seedAdmin shop_world)) = users (seedAdmin shop_world)"
proof -
  have e: "db_ready empty_world" "no_faults empty_world"
    "length (filter is_admin (users empty_world)) \<le> 1"
    by (simp_all add: empty_world_def no_faults_def)
  have s: "db_ready shop_world" "no_faults shop_world"
    "length (filter is_admin (users shop_world)) \<le> 1"
    by (simp_all add: shop_world_def seeded_world_def empty_world_def no_faults_def)
  from seedAdmin_idempotent [OF e] seedAdmin_idempotent [OF s] show ?thesis by blast
qed

lemma twin_admin_world_seeded:
  "db_ready twin_admin_world \<and> no_faults twin_admin_world \<and>
   length (filter is_admin (users twin_admin_world)) = 2"
  by (simp add: twin_admin_world_def empty_world_def no_faults_def is_admin_def eq_match_def
      admin_doc_def admin_email_def)

text \<open>
  C9 as stated fails: from a store that already holds two user documents with the admin
  email, two runs of the seed leave two of them.
\<close>

theorem seedAdmin_keeps_two_admins:
  "length (filter is_admin (users (seedAdmin (seedAdmin twin_admin_world)))) = 2"
proof -
  from twin_admin_world_seeded have w: "db_ready twin_admin_world" "no_faults twin_admin_world"
    "filter is_admin (users twin_admin_world) \<noteq> []"
    by auto
  from seedAdmin_present [OF w]
  have once: "users (seedAdmin twin_admin_world) = users twin_admin_world"
    "db_ready (seedAdmin twin_admin_world)" "no_faults (seedAdmin twin_admin_world)"
    by simp_all
  with w(3) have "filter is_admin (users (seedAdmin twin_admin_world)) \<noteq> []" by simp
  from seedAdmin_present [OF once(2,3) this] once(1) twin_admin_world_seeded
  show ?thesis by simp
qed

section \<open>Login with a known email\<close>

lemma login_wrong_password:
  assumes "store_answers w"
    and "find (\<lambda>d. eq_match d ''email'' (lookup (body req) ''email'')) (users w) = Some u"
    and "\<not> strict_eq (lookup u ''password'') (lookup (body req) ''password'')"
  shows "fst (login req w) =
           Json 401 (JObj [(''status'', JNum 401), (''result'', message_body ''Invalid password''),
                           (''message'', JStr ''Invalid password'')])"
  using assms
  by (simp add: login_def Let_def store_answers_def collection_def findOne_def store_call_answers
      try_reply_def sendResponse_def message_body_def lookup_def)

lemma login_accepted:
  assumes "store_answers w"
    and "find (\<lambda>d. eq_match d ''email'' (lookup (body req) ''email'')) (users w) = Some u"
    and "strict_eq (lookup u ''password'') (lookup (body req) ''password'')"
  shows "fst (login req w) =
           Json 200 (JObj [(''status'', JNum 200),
             (''result'', JObj [(''user'', JObj u),
                (''token'', jwt_sign [(''email'', lookup u ''email'')] ''jwt-secret'' (now req))]),
             (''message'', JUndefined)])"
  using assms
  by (simp add: login_def Let_def store_answers_def collection_def findOne_def store_call_answers
      try_reply_def sendResponse_def lookup_def)

end
